theory Spec2Isabelle
  imports Complex_Main
begin

section \<open>Orders (pedidos): data model and store\<close>

text \<open>
  The table \<open>pedidos\<close> of the first migration: \<open>id INTEGER PRIMARY KEY AUTOINCREMENT\<close>,
  \<open>cliente\<close>, \<open>tamanho\<close>, \<open>complemento\<close> (nullable), \<open>preco REAL\<close>,
  \<open>status TEXT DEFAULT 'pendente'\<close>, \<open>criado_em\<close> and \<open>atualizado_em\<close>
  (both \<open>DEFAULT CURRENT_TIMESTAMP\<close>). Field names carry the prefix \<open>p_\<close> because the
  user record below has fields of the same names. A price is a JavaScript number that the
  code only compares with zero; it is a real here. Timestamps are natural numbers.
\<close>

record pedido =
  p_id :: nat
  p_cliente :: string
  p_tamanho :: string
  p_complemento :: "string option"
  p_preco :: real
  p_status :: string
  p_criadoEm :: nat
  p_atualizadoEm :: nat

text \<open>\<open>CreatePedidoInput\<close>, \<open>UpdatePedidoInput\<close> and \<open>ListPedidosQuery\<close> of the
  pedido validator (the types inferred from the schemas). An optional field is an option.\<close>

record create_pedido_input =
  cp_cliente :: string
  cp_tamanho :: string
  cp_complemento :: "string option"
  cp_preco :: real

record update_pedido_input =
  up_cliente :: "string option"
  up_tamanho :: "string option"
  up_complemento :: "string option"
  up_preco :: "real option"
  up_status :: "string option"

record list_pedidos_query =
  q_page :: nat
  q_limit :: nat
  q_status :: "string option"
  q_cliente :: "string option"

text \<open>The table with its AUTOINCREMENT counter (the largest id ever handed out).\<close>

record pedido_table =
  pt_rows :: "pedido list"
  pt_seq :: nat

text \<open>
  Every \<open>throw new Error(msg)\<close> of the services is a constructor, named after its message:
  \<^item> \<open>PrecoDeveSerMaiorQueZero\<close>: 'Preco deve ser maior que zero'
  \<^item> \<open>PedidoNaoEncontrado\<close>: 'Pedido nao encontrado'
  \<^item> \<open>ErroAoAtualizarPedido\<close>: 'Erro ao atualizar pedido'
  \<^item> \<open>NaoEPossivelDeletarEntregues\<close>: 'Nao e possivel deletar pedidos ja entregues'
  \<^item> \<open>ErroAoDeletarPedido\<close>: 'Erro ao deletar pedido'
  \<^item> \<open>StatusInvalido\<close>: 'Status invalido'
  \<^item> \<open>StoreError\<close>: an error raised by the data store client itself, which the
    repository does not catch.
\<close>

datatype pedido_error =
    PrecoDeveSerMaiorQueZero
  | PedidoNaoEncontrado
  | ErroAoAtualizarPedido
  | NaoEPossivelDeletarEntregues
  | ErroAoDeletarPedido
  | StatusInvalido
  | StoreError

subsection \<open>The data store client, as the repository calls it\<close>

text \<open>\<open>db.pedido.create\<close>: the repository passes cliente, tamanho, complemento and preco;
  the store assigns the next id, the column default \<open>'pendente'\<close> and the timestamps.\<close>

definition db_pedido_create ::
  "nat \<Rightarrow> create_pedido_input \<Rightarrow> pedido_table \<Rightarrow> pedido \<times> pedido_table" where
  "db_pedido_create now d t =
     (let p = \<lparr> p_id = Suc (pt_seq t), p_cliente = cp_cliente d, p_tamanho = cp_tamanho d,
                p_complemento = cp_complemento d, p_preco = cp_preco d,
                p_status = ''pendente'', p_criadoEm = now, p_atualizadoEm = now \<rparr>
      in (p, t\<lparr> pt_rows := pt_rows t @ [p], pt_seq := Suc (pt_seq t) \<rparr>))"

text \<open>\<open>db.pedido.findUnique({ where: { id } })\<close>: the row or null.\<close>

definition db_pedido_findUnique :: "nat \<Rightarrow> pedido_table \<Rightarrow> pedido option" where
  "db_pedido_findUnique i t = find (\<lambda>p. p_id p = i) (pt_rows t)"

text \<open>A partial patch: a field that is undefined in \<open>data\<close> keeps its value.\<close>

definition apply_pedido_patch :: "nat \<Rightarrow> update_pedido_input \<Rightarrow> pedido \<Rightarrow> pedido" where
  "apply_pedido_patch now d p =
     p\<lparr> p_cliente := (case up_cliente d of None \<Rightarrow> p_cliente p | Some v \<Rightarrow> v),
        p_tamanho := (case up_tamanho d of None \<Rightarrow> p_tamanho p | Some v \<Rightarrow> v),
        p_complemento := (case up_complemento d of None \<Rightarrow> p_complemento p | Some v \<Rightarrow> Some v),
        p_preco := (case up_preco d of None \<Rightarrow> p_preco p | Some v \<Rightarrow> v),
        p_status := (case up_status d of None \<Rightarrow> p_status p | Some v \<Rightarrow> v),
        p_atualizadoEm := now \<rparr>"

text \<open>\<open>db.pedido.update({ where: { id }, data })\<close>: throws (None) when no row has the id,
  otherwise returns the patched row.\<close>

definition db_pedido_update ::
  "nat \<Rightarrow> nat \<Rightarrow> update_pedido_input \<Rightarrow> pedido_table \<Rightarrow> (pedido \<times> pedido_table) option" where
  "db_pedido_update now i d t =
     (case db_pedido_findUnique i t of
        None \<Rightarrow> None
      | Some p \<Rightarrow>
          Some (apply_pedido_patch now d p,
                t\<lparr> pt_rows := map (\<lambda>q. if p_id q = i then apply_pedido_patch now d q else q)
                                   (pt_rows t) \<rparr>))"

text \<open>\<open>db.pedido.delete({ where: { id } })\<close>: throws (None) when no row has the id.\<close>

definition db_pedido_delete :: "nat \<Rightarrow> pedido_table \<Rightarrow> pedido_table option" where
  "db_pedido_delete i t =
     (case db_pedido_findUnique i t of
        None \<Rightarrow> None
      | Some p \<Rightarrow> Some (t\<lparr> pt_rows := filter (\<lambda>q. p_id q \<noteq> i) (pt_rows t) \<rparr>))"

subsection \<open>PedidoRepository\<close>

definition repo_create ::
  "nat \<Rightarrow> create_pedido_input \<Rightarrow> pedido_table \<Rightarrow> pedido \<times> pedido_table" where
  "repo_create now d t = db_pedido_create now d t"

definition repo_findById :: "nat \<Rightarrow> pedido_table \<Rightarrow> pedido option" where
  "repo_findById i t = db_pedido_findUnique i t"

text \<open>\<open>update\<close> catches the store's exception and returns null.\<close>

definition repo_update ::
  "nat \<Rightarrow> nat \<Rightarrow> update_pedido_input \<Rightarrow> pedido_table \<Rightarrow> pedido option \<times> pedido_table" where
  "repo_update now i d t =
     (case db_pedido_update now i d t of
        None \<Rightarrow> (None, t)
      | Some (p, t') \<Rightarrow> (Some p, t'))"

text \<open>\<open>delete\<close> catches the store's exception and returns false.\<close>

definition repo_delete :: "nat \<Rightarrow> pedido_table \<Rightarrow> bool \<times> pedido_table" where
  "repo_delete i t =
     (case db_pedido_delete i t of
        None \<Rightarrow> (False, t)
      | Some t' \<Rightarrow> (True, t'))"

subsection \<open>PedidoService\<close>

definition createPedido ::
  "nat \<Rightarrow> create_pedido_input \<Rightarrow> pedido_table \<Rightarrow> (pedido_error + pedido) \<times> pedido_table" where
  "createPedido now d t =
     (if cp_preco d \<le> 0 then (Inl PrecoDeveSerMaiorQueZero, t)
      else (let (p, t') = repo_create now d t in (Inr p, t')))"

definition getPedidoById :: "nat \<Rightarrow> pedido_table \<Rightarrow> pedido_error + pedido" where
  "getPedidoById i t =
     (case repo_findById i t of
        None \<Rightarrow> Inl PedidoNaoEncontrado
      | Some p \<Rightarrow> Inr p)"

definition updatePedido ::
  "nat \<Rightarrow> nat \<Rightarrow> update_pedido_input \<Rightarrow> pedido_table \<Rightarrow> (pedido_error + pedido) \<times> pedido_table" where
  "updatePedido now i d t =
     (case getPedidoById i t of
        Inl e \<Rightarrow> (Inl e, t)
      | Inr _ \<Rightarrow>
          if (case up_preco d of None \<Rightarrow> False | Some v \<Rightarrow> v \<le> 0)
          then (Inl PrecoDeveSerMaiorQueZero, t)
          else (case repo_update now i d t of
                  (None, t') \<Rightarrow> (Inl ErroAoAtualizarPedido, t')
                | (Some updatedPedido, t') \<Rightarrow> (Inr updatedPedido, t')))"

definition deletePedido ::
  "nat \<Rightarrow> pedido_table \<Rightarrow> (pedido_error + unit) \<times> pedido_table" where
  "deletePedido i t =
     (case getPedidoById i t of
        Inl e \<Rightarrow> (Inl e, t)
      | Inr p \<Rightarrow>
          if p_status p = ''entregue'' then (Inl NaoEPossivelDeletarEntregues, t)
          else (case repo_delete i t of
                  (False, t') \<Rightarrow> (Inl ErroAoDeletarPedido, t')
                | (True, t') \<Rightarrow> (Inr (), t')))"

definition validStatuses :: "string list" where
  "validStatuses = [''pendente'', ''preparando'', ''pronto'', ''entregue'', ''cancelado'']"

definition updateStatus ::
  "nat \<Rightarrow> nat \<Rightarrow> string \<Rightarrow> pedido_table \<Rightarrow> (pedido_error + pedido) \<times> pedido_table" where
  "updateStatus now i s t =
     (if s \<notin> set validStatuses then (Inl StatusInvalido, t)
      else updatePedido now i
             \<lparr> up_cliente = None, up_tamanho = None, up_complemento = None,
               up_preco = None, up_status = Some s \<rparr> t)"

subsection \<open>Listing: where clause, paging, metadata\<close>

text \<open>A JavaScript string is truthy when it is defined and not empty.\<close>

definition truthy :: "string option \<Rightarrow> bool" where
  "truthy s = (case s of None \<Rightarrow> False | Some v \<Rightarrow> v \<noteq> [])"

text \<open>
  The \<open>where\<close> object of \<open>findMany\<close>: \<open>status\<close> is set when the query's status is
  truthy, and \<open>cliente = { contains, mode: 'insensitive' }\<close> when the query's cliente is
  truthy. The client is built on the D1 (SQLite) adapter (\<open>createPrismaClient\<close>), whose
  string filters have no \<open>mode\<close>: a \<open>where\<close> that carries it is refused, and the query
  throws. \<open>where_refused\<close> says when that is; \<open>pedido_matches\<close> is the rest of the
  \<open>where\<close>, the exact match on status.
\<close>

definition where_refused :: "list_pedidos_query \<Rightarrow> bool" where
  "where_refused q = truthy (q_cliente q)"

definition pedido_matches :: "list_pedidos_query \<Rightarrow> pedido \<Rightarrow> bool" where
  "pedido_matches q p = (if truthy (q_status q) then Some (p_status p) = q_status q else True)"

text \<open>
  \<open>db.pedido.findMany({ where, skip, take, orderBy: { criadoEm: 'desc' } })\<close>: throws
  (None) on a refused \<open>where\<close> and on a negative \<open>skip\<close>, which the client's argument
  check does not accept (page 0 with a positive limit gives one). Otherwise the rows that
  match, newest first (rows of one time in their table order, which the store leaves
  open), without the first \<open>skip\<close>, at most \<open>take\<close> of them.
\<close>

definition db_pedido_findMany ::
  "list_pedidos_query \<Rightarrow> int \<Rightarrow> nat \<Rightarrow> pedido_table \<Rightarrow> pedido list option" where
  "db_pedido_findMany q skip tk t =
     (if where_refused q \<or> skip < 0 then None
      else Some (take tk (drop (nat skip)
                   (sort_key (\<lambda>p. - int (p_criadoEm p))
                      (filter (pedido_matches q) (pt_rows t))))))"

text \<open>\<open>db.pedido.count({ where })\<close>: throws (None) on a refused \<open>where\<close>.\<close>

definition db_pedido_count :: "list_pedidos_query \<Rightarrow> pedido_table \<Rightarrow> nat option" where
  "db_pedido_count q t =
     (if where_refused q then None
      else Some (length (filter (pedido_matches q) (pt_rows t))))"

text \<open>\<open>PedidoRepository.findMany\<close>: \<open>skip = (page - 1) * limit\<close>, then both queries in
  one \<open>Promise.all\<close>; an exception of either one is not caught.\<close>

definition repo_findMany ::
  "list_pedidos_query \<Rightarrow> pedido_table \<Rightarrow> pedido_error + (pedido list \<times> nat)" where
  "repo_findMany q t =
     (let skip = (int (q_page q) - 1) * int (q_limit q)
      in case (db_pedido_findMany q skip (q_limit q) t, db_pedido_count q t) of
           (Some pedidos, Some tot) \<Rightarrow> Inr (pedidos, tot)
         | _ \<Rightarrow> Inl StoreError)"

text \<open>
  The numbers the listing computes. \<open>Math.ceil(total / limit)\<close> is a JavaScript number:
  with limit 0 it is Infinity (total positive) or NaN (total 0), and a comparison with NaN
  is false. Counts are far below \<open>2 ^ 53\<close>, where the division and the ceiling are exact.
\<close>

datatype js_number = Num int | PosInfinity | NaN

definition js_ceil_div :: "int \<Rightarrow> int \<Rightarrow> js_number" where
  "js_ceil_div tot lmt =
     (if lmt = 0 then (if tot = 0 then NaN else PosInfinity)
      else Num \<lceil>real_of_int tot / real_of_int lmt\<rceil>)"

fun js_lt :: "js_number \<Rightarrow> js_number \<Rightarrow> bool" where
  "js_lt (Num a) (Num b) = (a < b)"
| "js_lt (Num a) PosInfinity = True"
| "js_lt _ _ = False"

definition js_gt :: "js_number \<Rightarrow> js_number \<Rightarrow> bool" where
  "js_gt a b = js_lt b a"

record pagination =
  pg_page :: nat
  pg_limit :: nat
  pg_total :: nat
  pg_totalPages :: js_number
  pg_hasNext :: bool
  pg_hasPrev :: bool

definition listPedidos ::
  "list_pedidos_query \<Rightarrow> pedido_table \<Rightarrow> pedido_error + (pedido list \<times> pagination)" where
  "listPedidos q t =
     (case repo_findMany q t of
        Inl e \<Rightarrow> Inl e
      | Inr (pedidos, tot) \<Rightarrow>
          (let totalPages = js_ceil_div (int tot) (int (q_limit q))
           in Inr (pedidos,
                   \<lparr> pg_page = q_page q, pg_limit = q_limit q, pg_total = tot,
                     pg_totalPages = totalPages,
                     pg_hasNext = js_lt (Num (int (q_page q))) totalPages,
                     pg_hasPrev = (1 < q_page q) \<rparr>)))"

section \<open>Authentication and the role gate\<close>

text \<open>The claims of a token (\<open>JwtPayload\<close>): subject id, email and role.\<close>

record jwt_payload =
  jp_userId :: nat
  jp_email :: string
  jp_role :: string

text \<open>
  An \<open>HTTPException\<close> carries the status and one of the middleware's messages:
  'Token de acesso requerido', 'Token invalido ou expirado', 'Usuario nao autenticado',
  'Acesso negado. Permissoes insuficientes'.
\<close>

datatype auth_message =
    TokenDeAcessoRequerido
  | TokenInvalidoOuExpirado
  | UsuarioNaoAutenticado
  | AcessoNegadoPermissoesInsuficientes

datatype http_exception = HTTPException nat auth_message

text \<open>\<open>extractTokenFromHeader\<close>: null unless the header starts with \<open>'Bearer '\<close>,
  otherwise what follows the seventh character.\<close>

definition extractTokenFromHeader :: "string option \<Rightarrow> string option" where
  "extractTokenFromHeader authHeader =
     (case authHeader of
        None \<Rightarrow> None
      | Some h \<Rightarrow> if h = [] \<or> take 7 h \<noteq> ''Bearer '' then None else Some (drop 7 h))"

text \<open>\<open>authMiddleware\<close>: \<open>verifyToken\<close> (the signature and expiry check of the token
  library) is the parameter \<open>verify\<close>. The result is the payload stored in the context
  for the handlers that follow, or the exception thrown.\<close>

definition authMiddleware ::
  "(string \<Rightarrow> jwt_payload option) \<Rightarrow> string option \<Rightarrow> http_exception + jwt_payload" where
  "authMiddleware verify authHeader =
     (case extractTokenFromHeader authHeader of
        None \<Rightarrow> Inl (HTTPException 401 TokenDeAcessoRequerido)
      | Some token \<Rightarrow>
          if token = [] then Inl (HTTPException 401 TokenDeAcessoRequerido)
          else (case verify token of
                  None \<Rightarrow> Inl (HTTPException 401 TokenInvalidoOuExpirado)
                | Some payload \<Rightarrow> Inr payload))"

text \<open>\<open>roleMiddleware(requiredRoles)\<close> on the user of the context: \<open>Inr ()\<close> is the call
  of \<open>next()\<close>. \<open>includes\<close> compares strings exactly, case included.\<close>

definition roleMiddleware :: "string list \<Rightarrow> jwt_payload option \<Rightarrow> http_exception + unit" where
  "roleMiddleware requiredRoles user =
     (case user of
        None \<Rightarrow> Inl (HTTPException 401 UsuarioNaoAutenticado)
      | Some u \<Rightarrow>
          if jp_role u \<notin> set requiredRoles
          then Inl (HTTPException 403 AcessoNegadoPermissoesInsuficientes)
          else Inr ())"

text \<open>The admin gate of the user routes and of the file routes:
  \<open>roleMiddleware(['ADMIN'])\<close>.\<close>

definition admin_gate :: "jwt_payload option \<Rightarrow> http_exception + unit" where
  "admin_gate user = roleMiddleware [''ADMIN''] user"

section \<open>PedidoController\<close>

text \<open>\<open>idParamSchema\<close>: a string of one or more digits, turned into a number.\<close>

definition is_digit :: "char \<Rightarrow> bool" where
  "is_digit c = (48 \<le> (of_char c :: nat) \<and> (of_char c :: nat) \<le> 57)"

definition digits_to_nat :: "string \<Rightarrow> nat" where
  "digits_to_nat s = foldl (\<lambda>n c. 10 * n + ((of_char c :: nat) - 48)) 0 s"

definition idParamSchema :: "string option \<Rightarrow> nat option" where
  "idParamSchema v =
     (case v of
        None \<Rightarrow> None
      | Some s \<Rightarrow> if s \<noteq> [] \<and> list_all is_digit s then Some (digits_to_nat s) else None)"

text \<open>
  A response is a status code and a JSON body. The bodies of the order controller:
  \<open>{ success: true, data }\<close> with or without a message, \<open>{ error }\<close> alone
  ('Acesso negado', 'Usuario nao autenticado'), and the \<open>catch\<close> branch's
  \<open>{ success: false, error: error.message }\<close>, sent with \<open>error.status || 500\<close>; neither a
  validation error nor a service \<open>Error\<close> has a status, so the code is 500.
\<close>

datatype controller_message = AcessoNegado | NaoAutenticado

datatype caught = ValidationError | ServiceError pedido_error

datatype pedido_body =
    SuccessData pedido
  | JustError controller_message
  | Failure caught

record response =
  r_code :: nat
  r_body :: pedido_body

record request_context =
  c_user :: "jwt_payload option"

text \<open>\<open>create\<close>: \<open>parsed\<close> is what \<open>createPedidoSchema.parse(body)\<close> returned (None: it
  threw). The caller's id is checked for presence and then dropped: the service receives
  the validated data only.\<close>

definition ctrl_create ::
  "request_context \<Rightarrow> create_pedido_input option \<Rightarrow> nat \<Rightarrow> pedido_table \<Rightarrow> response \<times> pedido_table" where
  "ctrl_create c parsed now t =
     (case parsed of
        None \<Rightarrow> (\<lparr> r_code = 500, r_body = Failure ValidationError \<rparr>, t)
      | Some validatedData \<Rightarrow>
          (case map_option jp_userId (c_user c) of
             None \<Rightarrow> (\<lparr> r_code = 401, r_body = JustError NaoAutenticado \<rparr>, t)
           | Some userId \<Rightarrow>
               if userId = 0 then (\<lparr> r_code = 401, r_body = JustError NaoAutenticado \<rparr>, t)
               else (case createPedido now validatedData t of
                       (Inl e, t') \<Rightarrow> (\<lparr> r_code = 500, r_body = Failure (ServiceError e) \<rparr>, t')
                     | (Inr p, t') \<Rightarrow> (\<lparr> r_code = 201, r_body = SuccessData p \<rparr>, t'))))"

text \<open>\<open>getById\<close>: the access check is
  \<open>userRole !== 'ADMIN' && pedido.id !== userId\<close>.\<close>

definition ctrl_getById :: "request_context \<Rightarrow> string option \<Rightarrow> pedido_table \<Rightarrow> response" where
  "ctrl_getById c idParam t =
     (case idParamSchema idParam of
        None \<Rightarrow> \<lparr> r_code = 500, r_body = Failure ValidationError \<rparr>
      | Some i \<Rightarrow>
          (let userId = map_option jp_userId (c_user c);
               userRole = map_option jp_role (c_user c)
           in case getPedidoById i t of
                Inl e \<Rightarrow> \<lparr> r_code = 500, r_body = Failure (ServiceError e) \<rparr>
              | Inr p \<Rightarrow>
                  if userRole \<noteq> Some ''ADMIN'' \<and> Some (p_id p) \<noteq> userId
                  then \<lparr> r_code = 403, r_body = JustError AcessoNegado \<rparr>
                  else \<lparr> r_code = 200, r_body = SuccessData p \<rparr>))"

section \<open>Users (usuarios): data model and store\<close>

text \<open>
  The table \<open>usuarios\<close> of the third migration: \<open>id\<close>, \<open>email TEXT NOT NULL UNIQUE\<close>,
  \<open>senha\<close> (the password hash), \<open>nome\<close>, \<open>role TEXT DEFAULT 'user'\<close>,
  \<open>ativo BOOLEAN DEFAULT 1\<close> and the two timestamps.
\<close>

record usuario =
  u_id :: nat
  u_email :: string
  u_senha :: string
  u_nome :: string
  u_role :: string
  u_ativo :: bool
  u_criadoEm :: nat
  u_atualizadoEm :: nat

record usuario_table =
  ut_rows :: "usuario list"
  ut_seq :: nat

text \<open>\<open>RegisterUserInput\<close>, \<open>LoginUserInput\<close> and \<open>UpdateUserInput\<close>. The role of a
  registration is an option because the repository still reads it with \<open>|| 'user'\<close>.\<close>

record register_user_input =
  ru_nome :: string
  ru_email :: string
  ru_senha :: string
  ru_role :: "string option"

record login_user_input =
  lu_email :: string
  lu_senha :: string

record update_user_input =
  uu_nome :: "string option"
  uu_email :: "string option"
  uu_senha :: "string option"
  uu_role :: "string option"
  uu_ativo :: "bool option"

text \<open>
  The errors of the user service: 'Email ja esta em uso', 'Credenciais invalidas',
  'Usuario nao encontrado', 'Erro ao atualizar usuario', and an exception of the store
  client that nothing catches.
\<close>

datatype user_error =
    EmailJaEstaEmUso
  | CredenciaisInvalidas
  | UsuarioNaoEncontrado
  | ErroAoAtualizarUsuario
  | UserStoreError

text \<open>
  What the service hands out is a JavaScript object: a list of keys with their values.
  \<open>usuario_obj\<close> is the row as the store client returns it, \<open>omit\<close> the rest of a
  destructuring \<open>const { senha, ...userWithoutPassword } = user\<close>, \<open>select_fields\<close> the
  \<open>select\<close> of a query.
\<close>

datatype js_value = JNum nat | JStr string | JBool bool

type_synonym obj = "(string \<times> js_value) list"

definition usuario_obj :: "usuario \<Rightarrow> obj" where
  "usuario_obj u =
     [(''id'', JNum (u_id u)), (''email'', JStr (u_email u)), (''senha'', JStr (u_senha u)),
      (''nome'', JStr (u_nome u)), (''role'', JStr (u_role u)), (''ativo'', JBool (u_ativo u)),
      (''criadoEm'', JNum (u_criadoEm u)), (''atualizadoEm'', JNum (u_atualizadoEm u))]"

definition keys :: "obj \<Rightarrow> string list" where
  "keys ob = map fst ob"

definition omit :: "string \<Rightarrow> obj \<Rightarrow> obj" where
  "omit k ob = filter (\<lambda>kv. fst kv \<noteq> k) ob"

definition select_fields :: "string list \<Rightarrow> obj \<Rightarrow> obj" where
  "select_fields ks ob = filter (\<lambda>kv. fst kv \<in> set ks) ob"

subsection \<open>The data store client for users\<close>

definition db_usuario_findByEmail :: "string \<Rightarrow> usuario_table \<Rightarrow> usuario option" where
  "db_usuario_findByEmail e t = find (\<lambda>u. u_email u = e) (ut_rows t)"

definition db_usuario_findById :: "nat \<Rightarrow> usuario_table \<Rightarrow> usuario option" where
  "db_usuario_findById i t = find (\<lambda>u. u_id u = i) (ut_rows t)"

text \<open>\<open>db.usuario.create\<close> with nome, email, senha and role: the store adds the id,
  \<open>ativo\<close> by its default and the timestamps; it throws (None) on an email that a row
  already has (the UNIQUE constraint).\<close>

definition db_usuario_create ::
  "nat \<Rightarrow> string \<Rightarrow> string \<Rightarrow> string \<Rightarrow> string \<Rightarrow> usuario_table
   \<Rightarrow> (usuario \<times> usuario_table) option" where
  "db_usuario_create now nome email senha role t =
     (case db_usuario_findByEmail email t of
        Some _ \<Rightarrow> None
      | None \<Rightarrow>
          (let u = \<lparr> u_id = Suc (ut_seq t), u_email = email, u_senha = senha, u_nome = nome,
                     u_role = role, u_ativo = True, u_criadoEm = now, u_atualizadoEm = now \<rparr>
           in Some (u, t\<lparr> ut_rows := ut_rows t @ [u], ut_seq := Suc (ut_seq t) \<rparr>)))"

definition apply_usuario_patch :: "nat \<Rightarrow> update_user_input \<Rightarrow> usuario \<Rightarrow> usuario" where
  "apply_usuario_patch now d u =
     u\<lparr> u_nome := (case uu_nome d of None \<Rightarrow> u_nome u | Some v \<Rightarrow> v),
        u_email := (case uu_email d of None \<Rightarrow> u_email u | Some v \<Rightarrow> v),
        u_senha := (case uu_senha d of None \<Rightarrow> u_senha u | Some v \<Rightarrow> v),
        u_role := (case uu_role d of None \<Rightarrow> u_role u | Some v \<Rightarrow> v),
        u_ativo := (case uu_ativo d of None \<Rightarrow> u_ativo u | Some v \<Rightarrow> v),
        u_atualizadoEm := now \<rparr>"

text \<open>\<open>db.usuario.update({ where: { id }, data })\<close>: throws (None) when no row has the id,
  or when \<open>data\<close> writes an email that another row has.\<close>

definition db_usuario_update ::
  "nat \<Rightarrow> nat \<Rightarrow> update_user_input \<Rightarrow> usuario_table \<Rightarrow> (usuario \<times> usuario_table) option" where
  "db_usuario_update now i d t =
     (case db_usuario_findById i t of
        None \<Rightarrow> None
      | Some u \<Rightarrow>
          if (case uu_email d of
                None \<Rightarrow> False
              | Some e \<Rightarrow> list_ex (\<lambda>v. u_id v \<noteq> i \<and> u_email v = e) (ut_rows t))
          then None
          else Some (apply_usuario_patch now d u,
                     t\<lparr> ut_rows := map (\<lambda>v. if u_id v = i then apply_usuario_patch now d v else v)
                                        (ut_rows t) \<rparr>))"

text \<open>\<open>db.usuario.findFirst({ where })\<close> of \<open>emailExists\<close>: the email, and the id
  excluded when one is given.\<close>

definition db_usuario_findFirst ::
  "string \<Rightarrow> nat option \<Rightarrow> usuario_table \<Rightarrow> usuario option" where
  "db_usuario_findFirst email notId t =
     find (\<lambda>u. u_email u = email \<and> (case notId of None \<Rightarrow> True | Some x \<Rightarrow> u_id u \<noteq> x))
       (ut_rows t)"

text \<open>
  \<open>db.usuario.findMany\<close> of the listing: active rows, newest first, paged, with the
  \<open>select\<close> of id, nome, email, role, ativo, criadoEm and atualizadoEm. The service takes
  any numbers as page and limit; what the store client answers to a negative \<open>skip\<close> or
  \<open>take\<close> is the parameter \<open>bad_page\<close> (None: it throws).
\<close>

definition listing_fields :: "string list" where
  "listing_fields = [''id'', ''nome'', ''email'', ''role'', ''ativo'', ''criadoEm'', ''atualizadoEm'']"

definition db_usuario_findMany ::
  "(int \<Rightarrow> int \<Rightarrow> usuario list \<Rightarrow> usuario list option) \<Rightarrow> int \<Rightarrow> int \<Rightarrow> usuario_table
   \<Rightarrow> obj list option" where
  "db_usuario_findMany bad_page skip tk t =
     (let ms = sort_key (\<lambda>u. - int (u_criadoEm u)) (filter u_ativo (ut_rows t));
          page = (if skip < 0 \<or> tk < 0 then bad_page skip tk ms
                  else Some (take (nat tk) (drop (nat skip) ms)))
      in map_option (map (\<lambda>u. select_fields listing_fields (usuario_obj u))) page)"

definition db_usuario_count :: "usuario_table \<Rightarrow> nat" where
  "db_usuario_count t = length (filter u_ativo (ut_rows t))"

subsection \<open>UserRepository\<close>

text \<open>\<open>create\<close>: \<open>role: data.role || 'user'\<close>.\<close>

definition user_repo_create ::
  "nat \<Rightarrow> register_user_input \<Rightarrow> usuario_table \<Rightarrow> (usuario \<times> usuario_table) option" where
  "user_repo_create now d t =
     db_usuario_create now (ru_nome d) (ru_email d) (ru_senha d)
       (if truthy (ru_role d) then the (ru_role d) else ''user'') t"

definition user_repo_findMany ::
  "(int \<Rightarrow> int \<Rightarrow> usuario list \<Rightarrow> usuario list option) \<Rightarrow> int \<Rightarrow> int \<Rightarrow> usuario_table
   \<Rightarrow> (obj list \<times> nat) option" where
  "user_repo_findMany bad_page page lmt t =
     (let skip = (page - 1) * lmt
      in case db_usuario_findMany bad_page skip lmt t of
           None \<Rightarrow> None
         | Some usuarios \<Rightarrow> Some (usuarios, db_usuario_count t))"

definition user_repo_update ::
  "nat \<Rightarrow> nat \<Rightarrow> update_user_input \<Rightarrow> usuario_table \<Rightarrow> usuario option \<times> usuario_table" where
  "user_repo_update now i d t =
     (case db_usuario_update now i d t of
        None \<Rightarrow> (None, t)
      | Some (u, t') \<Rightarrow> (Some u, t'))"

text \<open>\<open>emailExists(email, excludeId)\<close>: the id is excluded only when it is truthy.\<close>

definition emailExists :: "string \<Rightarrow> nat \<Rightarrow> usuario_table \<Rightarrow> bool" where
  "emailExists email excludeId t =
     (db_usuario_findFirst email (if excludeId \<noteq> 0 then Some excludeId else None) t \<noteq> None)"

subsection \<open>UserService\<close>

text \<open>The hashing, comparing and signing libraries are parameters of the service.\<close>

record externals =
  hashPassword :: "string \<Rightarrow> string"
  comparePassword :: "string \<Rightarrow> string \<Rightarrow> bool"
  generateToken :: "jwt_payload \<Rightarrow> string"

definition token_payload :: "usuario \<Rightarrow> jwt_payload" where
  "token_payload u = \<lparr> jp_userId = u_id u, jp_email = u_email u, jp_role = u_role u \<rparr>"

definition register ::
  "externals \<Rightarrow> nat \<Rightarrow> register_user_input \<Rightarrow> usuario_table
   \<Rightarrow> (user_error + (obj \<times> string)) \<times> usuario_table" where
  "register ext now d t =
     (case db_usuario_findByEmail (ru_email d) t of
        Some _ \<Rightarrow> (Inl EmailJaEstaEmUso, t)
      | None \<Rightarrow>
          (case user_repo_create now (d\<lparr> ru_senha := hashPassword ext (ru_senha d) \<rparr>) t of
             None \<Rightarrow> (Inl UserStoreError, t)
           | Some (user, t') \<Rightarrow>
               (Inr (omit ''senha'' (usuario_obj user), generateToken ext (token_payload user)),
                t')))"

definition login ::
  "externals \<Rightarrow> login_user_input \<Rightarrow> usuario_table \<Rightarrow> user_error + (obj \<times> string)" where
  "login ext d t =
     (case db_usuario_findByEmail (lu_email d) t of
        None \<Rightarrow> Inl CredenciaisInvalidas
      | Some user \<Rightarrow>
          if \<not> u_ativo user then Inl CredenciaisInvalidas
          else if \<not> comparePassword ext (lu_senha d) (u_senha user)
          then Inl CredenciaisInvalidas
          else Inr (omit ''senha'' (usuario_obj user), generateToken ext (token_payload user)))"

definition getUserById :: "nat \<Rightarrow> usuario_table \<Rightarrow> user_error + obj" where
  "getUserById i t =
     (case db_usuario_findById i t of
        None \<Rightarrow> Inl UsuarioNaoEncontrado
      | Some user \<Rightarrow>
          if \<not> u_ativo user then Inl UsuarioNaoEncontrado
          else Inr (omit ''senha'' (usuario_obj user)))"

record user_pagination =
  upg_page :: int
  upg_limit :: int
  upg_total :: nat
  upg_totalPages :: js_number
  upg_hasNext :: bool
  upg_hasPrev :: bool

definition listUsers ::
  "(int \<Rightarrow> int \<Rightarrow> usuario list \<Rightarrow> usuario list option) \<Rightarrow> int \<Rightarrow> int \<Rightarrow> usuario_table
   \<Rightarrow> user_error + (obj list \<times> user_pagination)" where
  "listUsers bad_page page lmt t =
     (case user_repo_findMany bad_page page lmt t of
        None \<Rightarrow> Inl UserStoreError
      | Some (usuarios, tot) \<Rightarrow>
          (let totalPages = js_ceil_div (int tot) lmt
           in Inr (usuarios,
                   \<lparr> upg_page = page, upg_limit = lmt, upg_total = tot, upg_totalPages = totalPages,
                     upg_hasNext = js_lt (Num page) totalPages, upg_hasPrev = (1 < page) \<rparr>)))"

definition updateUser ::
  "externals \<Rightarrow> nat \<Rightarrow> nat \<Rightarrow> update_user_input \<Rightarrow> usuario_table
   \<Rightarrow> (user_error + obj) \<times> usuario_table" where
  "updateUser ext now i d t =
     (case getUserById i t of
        Inl e \<Rightarrow> (Inl e, t)
      | Inr _ \<Rightarrow>
          if truthy (uu_email d) \<and> emailExists (the (uu_email d)) i t
          then (Inl EmailJaEstaEmUso, t)
          else
            (let updateData =
                   (if truthy (uu_senha d)
                    then d\<lparr> uu_senha := Some (hashPassword ext (the (uu_senha d))) \<rparr> else d)
             in case user_repo_update now i updateData t of
                  (None, t') \<Rightarrow> (Inl ErroAoAtualizarUsuario, t')
                | (Some updatedUser, t') \<Rightarrow> (Inr (omit ''senha'' (usuario_obj updatedUser)), t')))"

text \<open>The role part of \<open>registerUserSchema\<close>:
  \<open>z.enum(['user', 'admin']).optional().default('user')\<close>. None: the field is refused.\<close>

definition registerUserSchema_role :: "string option \<Rightarrow> string option" where
  "registerUserSchema_role r =
     (case r of
        None \<Rightarrow> Some ''user''
      | Some v \<Rightarrow> if v = ''user'' \<or> v = ''admin'' then Some v else None)"

text \<open>The role part of \<open>updateUserSchema\<close>: \<open>z.enum(['user', 'admin']).optional()\<close>
  (None: the field is refused; \<open>Some None\<close>: the field is absent). And the property of a
  table that every stored role is one of the two values the schemas let through.\<close>

definition updateUserSchema_role :: "string option \<Rightarrow> string option option" where
  "updateUserSchema_role r =
     (case r of
        None \<Rightarrow> Some None
      | Some v \<Rightarrow> if v = ''user'' \<or> v = ''admin'' then Some (Some v) else None)"

definition roles_issued :: "usuario_table \<Rightarrow> bool" where
  "roles_issued t = list_all (\<lambda>u. u_role u = ''user'' \<or> u_role u = ''admin'') (ut_rows t)"

section \<open>FileService: validated upload\<close>

text \<open>
  A \<open>File\<close> (name, size in bytes, declared MIME type, bytes) and the
  \<open>FileUploadOptions\<close>. \<open>maxSize\<close> is a JavaScript number: the controller computes it
  with \<open>parseInt\<close>, which yields NaN on a setting that is no number.
\<close>

record upload_file =
  f_name :: string
  f_size :: nat
  f_type :: string
  f_stream :: "nat list"

record file_upload_options =
  maxSize :: js_number
  allowedTypes :: "string list"
  generateUniqueKey :: "bool option"

text \<open>An object of the bucket with the metadata \<open>put\<close> stores, and a row of the table
  \<open>arquivos\<close> (id, nome, url, tipo, tamanho, criado_em).\<close>

record r2_object =
  o_body :: "nat list"
  o_contentType :: string
  o_contentDisposition :: string
  o_originalName :: string
  o_uploadedBy :: string
  o_uploadedAt :: string

record arquivo =
  a_id :: nat
  a_nome :: string
  a_url :: string
  a_tipo :: string
  a_tamanho :: nat
  a_criadoEm :: nat

text \<open>The state the file service works on: the bucket, as the list of every object put
  (the newest first, so that each write is visible), and the metadata table.\<close>

record file_state =
  fs_bucket :: "(string \<times> r2_object) list"
  fs_arquivos :: "arquivo list"
  fs_seq :: nat

text \<open>What the clock and the random generator give to one upload: \<open>Date.now()\<close> and the
  random suffix as they are printed into the key, the ISO time of the custom metadata,
  and the time of the row.\<close>

record upload_env =
  e_timestamp :: string
  e_random :: string
  e_isoTime :: string
  e_now :: nat

text \<open>
  The three rejections of \<open>validateFile\<close>: 'Arquivo muito grande' (with the formatted
  limit), 'Tipo de arquivo nao permitido' (with the accepted types), 'Arquivo esta vazio'.
  \<open>uploadFile\<close> catches and throws again with the prefix 'Erro no upload: '.
\<close>

datatype validation_failure =
    ArquivoMuitoGrande js_number
  | TipoNaoPermitido "string list"
  | ArquivoVazio

datatype upload_error = ErroNoUpload validation_failure

definition validateFile :: "upload_file \<Rightarrow> file_upload_options \<Rightarrow> validation_failure + unit" where
  "validateFile file options =
     (if js_gt (Num (int (f_size file))) (maxSize options)
      then Inl (ArquivoMuitoGrande (maxSize options))
      else if f_type file \<notin> set (allowedTypes options)
      then Inl (TipoNaoPermitido (allowedTypes options))
      else if f_size file = 0 then Inl ArquivoVazio
      else Inr ())"

text \<open>\<open>originalName.split('.').pop()\<close>: what follows the last dot, or the whole name.\<close>

definition extension :: "string \<Rightarrow> string" where
  "extension originalName = rev (takeWhile (\<lambda>c. c \<noteq> CHR ''.'') (rev originalName))"

definition generateFileKey :: "upload_env \<Rightarrow> string \<Rightarrow> string \<Rightarrow> string" where
  "generateFileKey env originalName userId =
     ''uploads/'' @ userId @ ''/'' @ e_timestamp env @ ''-'' @ e_random env @ ''.''
       @ extension originalName"

definition r2_put :: "string \<Rightarrow> r2_object \<Rightarrow> file_state \<Rightarrow> file_state" where
  "r2_put k ob st = st\<lparr> fs_bucket := (k, ob) # fs_bucket st \<rparr>"

definition db_arquivo_create ::
  "nat \<Rightarrow> string \<Rightarrow> nat \<Rightarrow> string \<Rightarrow> string \<Rightarrow> file_state \<Rightarrow> arquivo \<times> file_state" where
  "db_arquivo_create now nome tamanho tipo url st =
     (let a = \<lparr> a_id = Suc (fs_seq st), a_nome = nome, a_url = url, a_tipo = tipo,
                a_tamanho = tamanho, a_criadoEm = now \<rparr>
      in (a, st\<lparr> fs_arquivos := fs_arquivos st @ [a], fs_seq := Suc (fs_seq st) \<rparr>))"

text \<open>
  \<open>uploadFile\<close>: validate, choose the key, put the object, create the row, return the
  \<open>UploadedFile\<close> built from the row. It reads \<open>nomeOriginal\<close>, \<open>nomeArquivo\<close> and
  \<open>usuarioId\<close> from the row, which the create call never sets: they are undefined (None).
\<close>

record uploaded_file =
  uf_id :: nat
  uf_nomeOriginal :: "string option"
  uf_nomeArquivo :: "string option"
  uf_tamanho :: nat
  uf_tipo :: string
  uf_url :: string
  uf_usuarioId :: "string option"
  uf_criadoEm :: nat

definition uploadFile ::
  "upload_env \<Rightarrow> string \<Rightarrow> upload_file \<Rightarrow> string \<Rightarrow> file_upload_options \<Rightarrow> file_state
   \<Rightarrow> (upload_error + uploaded_file) \<times> file_state" where
  "uploadFile env baseUrl file userId options st =
     (case validateFile file options of
        Inl e \<Rightarrow> (Inl (ErroNoUpload e), st)
      | Inr _ \<Rightarrow>
          (let fileKey = (if generateUniqueKey options \<noteq> Some False
                          then generateFileKey env (f_name file) userId
                          else ''uploads/'' @ userId @ ''/'' @ f_name file);
               st1 = r2_put fileKey
                       \<lparr> o_body = f_stream file, o_contentType = f_type file,
                         o_contentDisposition = ''attachment; filename=\"'' @ f_name file @ ''\"'',
                         o_originalName = f_name file, o_uploadedBy = userId,
                         o_uploadedAt = e_isoTime env \<rparr> st;
               (a, st2) = db_arquivo_create (e_now env) fileKey (f_size file) (f_type file)
                            (baseUrl @ ''/files/'' @ fileKey) st1
           in (Inr \<lparr> uf_id = a_id a, uf_nomeOriginal = None, uf_nomeArquivo = None,
                     uf_tamanho = a_tamanho a, uf_tipo = a_tipo a, uf_url = a_url a,
                     uf_usuarioId = None, uf_criadoEm = a_criadoEm a \<rparr>, st2)))"

section \<open>Sample data\<close>

definition empty_pedidos :: pedido_table where
  "empty_pedidos = \<lparr> pt_rows = [], pt_seq = 0 \<rparr>"

definition marmita :: "real \<Rightarrow> create_pedido_input" where
  "marmita v = \<lparr> cp_cliente = ''Ana'', cp_tamanho = ''M'', cp_complemento = None, cp_preco = v \<rparr>"

text \<open>Three stored orders: one delivered, one pending, one cancelled.\<close>

definition order1 :: pedido where
  "order1 = \<lparr> p_id = 1, p_cliente = ''Ana'', p_tamanho = ''M'', p_complemento = None,
              p_preco = 25, p_status = ''entregue'', p_criadoEm = 100, p_atualizadoEm = 130 \<rparr>"

definition order2 :: pedido where
  "order2 = \<lparr> p_id = 2, p_cliente = ''Bia'', p_tamanho = ''G'', p_complemento = Some ''sem sal'',
              p_preco = 30, p_status = ''pendente'', p_criadoEm = 110, p_atualizadoEm = 110 \<rparr>"

definition order3 :: pedido where
  "order3 = \<lparr> p_id = 3, p_cliente = ''Caio'', p_tamanho = ''P'', p_complemento = None,
              p_preco = 18, p_status = ''cancelado'', p_criadoEm = 120, p_atualizadoEm = 125 \<rparr>"

definition three_orders :: pedido_table where
  "three_orders = \<lparr> pt_rows = [order1, order2, order3], pt_seq = 3 \<rparr>"

text \<open>The patch \<open>{ status }\<close> that \<open>updateStatus\<close> builds.\<close>

definition status_patch :: "string \<Rightarrow> update_pedido_input" where
  "status_patch s = \<lparr> up_cliente = None, up_tamanho = None, up_complemento = None,
                      up_preco = None, up_status = Some s \<rparr>"

text \<open>Twenty-five stored orders, a query for page \<open>n\<close> of ten, and a query for the
  first page of ten of the orders of one client.\<close>

definition nth_order :: "nat \<Rightarrow> pedido" where
  "nth_order n = \<lparr> p_id = n, p_cliente = ''Ana'', p_tamanho = ''M'', p_complemento = None,
                   p_preco = 25, p_status = ''pendente'', p_criadoEm = 100 + n,
                   p_atualizadoEm = 100 + n \<rparr>"

definition many_orders :: pedido_table where
  "many_orders = \<lparr> pt_rows = map nth_order [1..<26], pt_seq = 25 \<rparr>"

definition page_query :: "nat \<Rightarrow> list_pedidos_query" where
  "page_query n = \<lparr> q_page = n, q_limit = 10, q_status = None, q_cliente = None \<rparr>"

definition cliente_query :: "string \<Rightarrow> list_pedidos_query" where
  "cliente_query c = \<lparr> q_page = 1, q_limit = 10, q_status = None, q_cliente = Some c \<rparr>"

text \<open>A request context for the caller with id \<open>i\<close> and role \<open>r\<close>; the table after
  user 2 has created an order through the controller, and that order.\<close>

definition caller :: "nat \<Rightarrow> string \<Rightarrow> request_context" where
  "caller i r = \<lparr> c_user = Some \<lparr> jp_userId = i, jp_email = ''x@x.com'', jp_role = r \<rparr> \<rparr>"

definition after_create :: pedido_table where
  "after_create = snd (ctrl_create (caller 2 ''user'') (Some (marmita 25)) 100 empty_pedidos)"

definition created_order :: pedido where
  "created_order = \<lparr> p_id = 1, p_cliente = ''Ana'', p_tamanho = ''M'', p_complemento = None,
              p_preco = 25, p_status = ''pendente'', p_criadoEm = 100, p_atualizadoEm = 100 \<rparr>"

text \<open>Stand-ins for the hashing, comparing and signing libraries; two stored users, Ana
  (active, role \<open>user\<close>) and Bob (inactive, role \<open>admin\<close>); inputs built from an email;
  a file of a given size and type, upload options and a state that holds one file.\<close>

definition sample_ext :: externals where
  "sample_ext = \<lparr> hashPassword = (\<lambda>p. ''hash:'' @ p),
                  comparePassword = (\<lambda>p h. h = ''hash:'' @ p),
                  generateToken = (\<lambda>pl. ''token:'' @ jp_email pl @ '':'' @ jp_role pl) \<rparr>"

definition ana :: usuario where
  "ana = \<lparr> u_id = 1, u_email = ''ana@x.com'', u_senha = ''hash:Secret123'', u_nome = ''Ana'',
           u_role = ''user'', u_ativo = True, u_criadoEm = 10, u_atualizadoEm = 10 \<rparr>"

definition bob :: usuario where
  "bob = \<lparr> u_id = 2, u_email = ''bob@x.com'', u_senha = ''hash:Passw0rd'', u_nome = ''Bob'',
           u_role = ''admin'', u_ativo = False, u_criadoEm = 20, u_atualizadoEm = 25 \<rparr>"

definition two_users :: usuario_table where
  "two_users = \<lparr> ut_rows = [ana, bob], ut_seq = 2 \<rparr>"

definition credentials :: "string \<Rightarrow> string \<Rightarrow> login_user_input" where
  "credentials e s = \<lparr> lu_email = e, lu_senha = s \<rparr>"

definition registration :: "string \<Rightarrow> string option \<Rightarrow> register_user_input" where
  "registration e r = \<lparr> ru_nome = ''Carla'', ru_email = e, ru_senha = ''Secret123'', ru_role = r \<rparr>"

definition users_store_throws :: "int \<Rightarrow> int \<Rightarrow> usuario list \<Rightarrow> usuario list option" where
  "users_store_throws skip tk rows = None"

definition rename :: "string \<Rightarrow> update_user_input" where
  "rename n = \<lparr> uu_nome = Some n, uu_email = None, uu_senha = None, uu_role = None,
                uu_ativo = None \<rparr>"

definition sample_file :: "nat \<Rightarrow> string \<Rightarrow> upload_file" where
  "sample_file n ty = \<lparr> f_name = ''foto.png'', f_size = n, f_type = ty, f_stream = replicate n 0 \<rparr>"

definition sample_options :: file_upload_options where
  "sample_options = \<lparr> maxSize = Num 10, allowedTypes = [''image/png'', ''image/jpeg''],
                      generateUniqueKey = Some True \<rparr>"

definition sample_env :: upload_env where
  "sample_env = \<lparr> e_timestamp = ''1700000000000'', e_random = ''k3x9'',
                  e_isoTime = ''2023-11-14T22:13:20.000Z'', e_now = 50 \<rparr>"

definition one_file :: file_state where
  "one_file =
     \<lparr> fs_bucket = [(''uploads/7/1-a.png'',
                      \<lparr> o_body = [1, 2, 3], o_contentType = ''image/png'',
                        o_contentDisposition = ''attachment'', o_originalName = ''a.png'',
                        o_uploadedBy = ''7'', o_uploadedAt = ''2023-11-14T00:00:00.000Z'' \<rparr>)],
       fs_arquivos = [\<lparr> a_id = 1, a_nome = ''uploads/7/1-a.png'',
                        a_url = ''https://api/files/uploads/7/1-a.png'', a_tipo = ''image/png'',
                        a_tamanho = 3, a_criadoEm = 40 \<rparr>],
       fs_seq = 1 \<rparr>"

section \<open>Order creation\<close>

text \<open>
  C4. For every order-creation input with price at most zero, \<open>createPedido\<close> fails with
  the domain-rule error (the price must be greater than zero) and the table is left as it
  was; for every input with a positive price it succeeds, the order it returns is the
  row appended to the table, and its status is \<open>pendente\<close>.
\<close>

theorem createPedido_price_rule:
  "(cp_preco d \<le> 0 \<longrightarrow> createPedido now d t = (Inl PrecoDeveSerMaiorQueZero, t)) \<and>
   (0 < cp_preco d \<longrightarrow>
      (\<exists>p t'. createPedido now d t = (Inr p, t') \<and> p_status p = ''pendente'' \<and>
              p \<in> set (pt_rows t') \<and> pt_rows t' = pt_rows t @ [p]))"
  by (auto simp: createPedido_def repo_create_def db_pedido_create_def Let_def)

theorem createPedido_price_rule_witness:
  "createPedido 100 (marmita 0) empty_pedidos = (Inl PrecoDeveSerMaiorQueZero, empty_pedidos) \<and>
   (\<exists>p t'. createPedido 100 (marmita 25) empty_pedidos = (Inr p, t') \<and>
           p_status p = ''pendente'' \<and> p \<in> set (pt_rows t') \<and>
           pt_rows t' = pt_rows empty_pedidos @ [p])"
  using createPedido_price_rule [where d = "marmita 0" and now = 100 and t = empty_pedidos]
        createPedido_price_rule [where d = "marmita 25" and now = 100 and t = empty_pedidos]
  by (simp add: marmita_def)

section \<open>Lookups after an update and after a delete\<close>

lemma find_map_same_id:
  "find (\<lambda>q. p_id q = i) (map (\<lambda>q. if p_id q = i then apply_pedido_patch now d q else q) xs)
   = map_option (apply_pedido_patch now d) (find (\<lambda>q. p_id q = i) xs)"
  by (induction xs) (auto simp: apply_pedido_patch_def)

lemma find_filter_removed: "find (\<lambda>q. p_id q = i) (filter (\<lambda>q. p_id q \<noteq> i) xs) = None"
  by (induction xs) auto

lemma updatePedido_existing:
  assumes "db_pedido_findUnique i t = Some p"
    and "case up_preco d of None \<Rightarrow> True | Some v \<Rightarrow> 0 < v"
  shows "updatePedido now i d t =
           (Inr (apply_pedido_patch now d p),
            t\<lparr> pt_rows := map (\<lambda>q. if p_id q = i then apply_pedido_patch now d q else q) (pt_rows t) \<rparr>)"
  using assms
  by (auto simp: updatePedido_def getPedidoById_def repo_findById_def repo_update_def
        db_pedido_update_def split: option.splits)

section \<open>Deleting an order\<close>

text \<open>
  C3. For an id that no stored order has, \<open>deletePedido\<close> fails with the not-found error.
  For an existing order it fails if and only if the order's status is exactly
  \<open>entregue\<close>; every failure leaves the table as it was; when the status is anything
  else the call succeeds, the row is removed and a lookup of the id finds nothing.
\<close>

theorem deletePedido_rule:
  "(db_pedido_findUnique i t = None \<longrightarrow> deletePedido i t = (Inl PedidoNaoEncontrado, t)) \<and>
   (\<forall>p. db_pedido_findUnique i t = Some p \<longrightarrow>
      (isl (fst (deletePedido i t)) = (p_status p = ''entregue'')) \<and>
      (p_status p = ''entregue'' \<longrightarrow>
         deletePedido i t = (Inl NaoEPossivelDeletarEntregues, t)) \<and>
      (p_status p \<noteq> ''entregue'' \<longrightarrow>
         (\<exists>t'. deletePedido i t = (Inr (), t') \<and>
               pt_rows t' = filter (\<lambda>q. p_id q \<noteq> i) (pt_rows t) \<and>
               db_pedido_findUnique i t' = None)))"
  by (auto simp: deletePedido_def getPedidoById_def repo_findById_def repo_delete_def
        db_pedido_delete_def db_pedido_findUnique_def find_filter_removed
        split: option.splits)

theorem deletePedido_rule_witness:
  "deletePedido 7 three_orders = (Inl PedidoNaoEncontrado, three_orders) \<and>
   deletePedido 1 three_orders = (Inl NaoEPossivelDeletarEntregues, three_orders) \<and>
   (\<exists>t'. deletePedido 3 three_orders = (Inr (), t') \<and> pt_rows t' = [order1, order2] \<and>
         db_pedido_findUnique 3 t' = None)"
proof -
  have a: "db_pedido_findUnique 7 three_orders = None"
    by (simp add: db_pedido_findUnique_def three_orders_def order1_def order2_def order3_def)
  have b: "db_pedido_findUnique 1 three_orders = Some order1"
    by (simp add: db_pedido_findUnique_def three_orders_def order1_def order2_def order3_def)
  have c: "db_pedido_findUnique 3 three_orders = Some order3"
    by (simp add: db_pedido_findUnique_def three_orders_def order1_def order2_def order3_def)
  have s1: "p_status order1 = ''entregue''" by (simp add: order1_def)
  have s3: "p_status order3 \<noteq> ''entregue''" by (simp add: order3_def)
  have f: "filter (\<lambda>q. p_id q \<noteq> 3) (pt_rows three_orders) = [order1, order2]"
    by (simp add: three_orders_def order1_def order2_def order3_def)
  from deletePedido_rule [of 7 three_orders] a
  have "deletePedido 7 three_orders = (Inl PedidoNaoEncontrado, three_orders)" by simp
  moreover from deletePedido_rule [of 1 three_orders] b s1
  have "deletePedido 1 three_orders = (Inl NaoEPossivelDeletarEntregues, three_orders)" by simp
  moreover from deletePedido_rule [of 3 three_orders] c s3 f
  have "\<exists>t'. deletePedido 3 three_orders = (Inr (), t') \<and> pt_rows t' = [order1, order2] \<and>
         db_pedido_findUnique 3 t' = None" by simp
  ultimately show ?thesis by simp
qed

section \<open>Status changes\<close>

text \<open>
  C2, as stated, fails: the delivered order 1 is set back to \<open>pendente\<close> by
  \<open>updateStatus\<close>, and the cancelled order 3 is set to \<open>preparando\<close> by \<open>updatePedido\<close>.
\<close>

theorem terminal_status_is_overwritten:
  "p_status order1 = ''entregue'' \<and>
   db_pedido_findUnique 1 three_orders = Some order1 \<and>
   fst (updateStatus 200 1 ''pendente'' three_orders)
     = Inr (order1\<lparr> p_status := ''pendente'', p_atualizadoEm := 200 \<rparr>) \<and>
   db_pedido_findUnique 1 (snd (updateStatus 200 1 ''pendente'' three_orders))
     = Some (order1\<lparr> p_status := ''pendente'', p_atualizadoEm := 200 \<rparr>) \<and>
   p_status order3 = ''cancelado'' \<and>
   db_pedido_findUnique 3 three_orders = Some order3 \<and>
   fst (updatePedido 200 3 (status_patch ''preparando'') three_orders)
     = Inr (order3\<lparr> p_status := ''preparando'', p_atualizadoEm := 200 \<rparr>)"
  by (simp add: updateStatus_def validStatuses_def updatePedido_def getPedidoById_def
        repo_findById_def repo_update_def db_pedido_update_def db_pedido_findUnique_def
        apply_pedido_patch_def three_orders_def order1_def order2_def order3_def
        status_patch_def)

text \<open>
  C2, amended. The service checks no transition. For every existing order, whatever its
  current status (the terminal ones included): \<open>updateStatus\<close> with one of the five
  enumerated values succeeds and stores that value as the order's status; with any other
  value it fails with the invalid-status error and leaves the table as it was; and
  \<open>updatePedido\<close> with a patch that carries a status (and no price that is zero or
  negative) stores that status.
\<close>

theorem updateStatus_accepts_any_valid_status:
  assumes "db_pedido_findUnique i t = Some p"
  shows "(s \<in> set validStatuses \<longrightarrow>
            (\<exists>p' t'. updateStatus now i s t = (Inr p', t') \<and> p_status p' = s \<and>
                     db_pedido_findUnique i t' = Some p')) \<and>
         (s \<notin> set validStatuses \<longrightarrow> updateStatus now i s t = (Inl StatusInvalido, t)) \<and>
         ((case up_preco d of None \<Rightarrow> True | Some v \<Rightarrow> 0 < v) \<and> up_status d = Some s \<longrightarrow>
            (\<exists>p' t'. updatePedido now i d t = (Inr p', t') \<and> p_status p' = s \<and>
                     db_pedido_findUnique i t' = Some p'))"
proof (intro conjI impI)
  assume "s \<in> set validStatuses"
  then show "\<exists>p' t'. updateStatus now i s t = (Inr p', t') \<and> p_status p' = s \<and>
                     db_pedido_findUnique i t' = Some p'"
    using assms
    by (simp add: updateStatus_def updatePedido_existing db_pedido_findUnique_def
          find_map_same_id apply_pedido_patch_def)
next
  assume "s \<notin> set validStatuses"
  then show "updateStatus now i s t = (Inl StatusInvalido, t)"
    by (simp add: updateStatus_def)
next
  assume "(case up_preco d of None \<Rightarrow> True | Some v \<Rightarrow> 0 < v) \<and> up_status d = Some s"
  then show "\<exists>p' t'. updatePedido now i d t = (Inr p', t') \<and> p_status p' = s \<and>
                     db_pedido_findUnique i t' = Some p'"
    using assms
    by (simp add: updatePedido_existing db_pedido_findUnique_def
          find_map_same_id apply_pedido_patch_def)
qed

theorem updateStatus_accepts_any_valid_status_witness:
  "(\<exists>p' t'. updateStatus 200 1 ''pronto'' three_orders = (Inr p', t') \<and>
            p_status p' = ''pronto'' \<and> db_pedido_findUnique 1 t' = Some p') \<and>
   updateStatus 200 1 ''voando'' three_orders = (Inl StatusInvalido, three_orders) \<and>
   (\<exists>p' t'. updatePedido 200 3 (status_patch ''pronto'') three_orders = (Inr p', t') \<and>
            p_status p' = ''pronto'' \<and> db_pedido_findUnique 3 t' = Some p')"
proof -
  have b: "db_pedido_findUnique 1 three_orders = Some order1"
    by (simp add: db_pedido_findUnique_def three_orders_def order1_def order2_def order3_def)
  have c: "db_pedido_findUnique 3 three_orders = Some order3"
    by (simp add: db_pedido_findUnique_def three_orders_def order1_def order2_def order3_def)
  have v: "''pronto'' \<in> set validStatuses" "''voando'' \<notin> set validStatuses"
    by (simp_all add: validStatuses_def)
  have d: "(case up_preco (status_patch ''pronto'') of None \<Rightarrow> True | Some v \<Rightarrow> 0 < v) \<and>
           up_status (status_patch ''pronto'') = Some ''pronto''"
    by (simp add: status_patch_def)
  from updateStatus_accepts_any_valid_status [OF b, where s = "''pronto''" and now = 200] v
  have "\<exists>p' t'. updateStatus 200 1 ''pronto'' three_orders = (Inr p', t') \<and>
            p_status p' = ''pronto'' \<and> db_pedido_findUnique 1 t' = Some p'" by simp
  moreover from updateStatus_accepts_any_valid_status [OF b, where s = "''voando''" and now = 200] v
  have "updateStatus 200 1 ''voando'' three_orders = (Inl StatusInvalido, three_orders)" by simp
  moreover from updateStatus_accepts_any_valid_status
      [OF c, where s = "''pronto''" and now = 200 and d = "status_patch ''pronto''"] d
  have "\<exists>p' t'. updatePedido 200 3 (status_patch ''pronto'') three_orders = (Inr p', t') \<and>
            p_status p' = ''pronto'' \<and> db_pedido_findUnique 3 t' = Some p'" by simp
  ultimately show ?thesis by simp
qed

section \<open>Listing orders: the pagination metadata\<close>

lemma listPedidos_returns:
  assumes "1 \<le> q_page q \<or> q_limit q = 0" and "\<not> truthy (q_cliente q)"
  shows "listPedidos q t =
     Inr (take (q_limit q) (drop ((q_page q - 1) * q_limit q)
            (sort_key (\<lambda>p. - int (p_criadoEm p)) (filter (pedido_matches q) (pt_rows t)))),
          \<lparr> pg_page = q_page q, pg_limit = q_limit q,
            pg_total = length (filter (pedido_matches q) (pt_rows t)),
            pg_totalPages = js_ceil_div (int (length (filter (pedido_matches q) (pt_rows t)))) (int (q_limit q)),
            pg_hasNext = js_lt (Num (int (q_page q)))
               (js_ceil_div (int (length (filter (pedido_matches q) (pt_rows t)))) (int (q_limit q))),
            pg_hasPrev = (1 < q_page q) \<rparr>)"
proof -
  have "\<not> (int (q_page q) - 1) * int (q_limit q) < 0"
    using assms(1) by (auto simp: mult_less_0_iff)
  moreover have "nat ((int (q_page q) - 1) * int (q_limit q)) = (q_page q - 1) * q_limit q"
    using assms(1) by (auto simp: nat_mult_distrib int_ops)
  ultimately show ?thesis
    using assms(2)
    by (simp add: listPedidos_def repo_findMany_def db_pedido_findMany_def db_pedido_count_def
          where_refused_def Let_def)
qed

lemma js_ceil_div_pos: "0 < l \<Longrightarrow> js_ceil_div (int n) (int l) = Num \<lceil>real n / real l\<rceil>"
  by (simp add: js_ceil_div_def)

text \<open>
  C8, as stated, fails: over the twenty-five orders and with limit 10, the query for page
  0 and the query that filters by client name return no metadata; \<open>listPedidos\<close> ends
  with the store client's exception.
\<close>

theorem listPedidos_page_zero_and_cliente_filter_throw:
  "q_limit (page_query 0) = 10 \<and> q_page (page_query 0) = 0 \<and>
   listPedidos (page_query 0) many_orders = Inl StoreError \<and>
   q_limit (cliente_query ''Ana'') = 10 \<and> q_page (cliente_query ''Ana'') = 1 \<and>
   listPedidos (cliente_query ''Ana'') many_orders = Inl StoreError"
  by (simp add: listPedidos_def repo_findMany_def db_pedido_findMany_def db_pedido_count_def
        where_refused_def truthy_def page_query_def cliente_query_def Let_def)

text \<open>
  C8, amended. For every list query with page at least 1, a positive limit and no client
  name to filter by (absent or empty), over a table in which \<open>n\<close> rows match the query's
  status filter, \<open>listPedidos\<close> returns the page's items and the metadata: the page and
  the limit of the query, total \<open>n\<close>, totalPages the ceiling of \<open>n / limit\<close>, hasNext
  exactly when the page is below totalPages, and hasPrev exactly when the page is above 1.
  With 25 matching rows and limit 10, page 1 has 10 items, totalPages 3, hasNext and no
  hasPrev; page 3 has 5 items, totalPages 3, no hasNext and hasPrev.
\<close>

theorem listPedidos_pagination:
  assumes "1 \<le> q_page q" and "0 < q_limit q" and "\<not> truthy (q_cliente q)"
    and "length (filter (pedido_matches q) (pt_rows t)) = n"
  shows "(\<exists>ps pg. listPedidos q t = Inr (ps, pg) \<and>
            ps = take (q_limit q) (drop ((q_page q - 1) * q_limit q)
                   (sort_key (\<lambda>p. - int (p_criadoEm p))
                      (filter (pedido_matches q) (pt_rows t)))) \<and>
            pg_page pg = q_page q \<and> pg_limit pg = q_limit q \<and>
            pg_total pg = n \<and>
            pg_totalPages pg = Num \<lceil>real n / real (q_limit q)\<rceil> \<and>
            pg_hasNext pg = (int (q_page q) < \<lceil>real n / real (q_limit q)\<rceil>) \<and>
            pg_hasPrev pg = (1 < q_page q)) \<and>
         (n = 25 \<and> q_limit q = 10 \<and> q_page q = 1 \<longrightarrow>
            (\<exists>ps pg. listPedidos q t = Inr (ps, pg) \<and> length ps = 10 \<and>
               pg_totalPages pg = Num 3 \<and> pg_hasNext pg \<and> \<not> pg_hasPrev pg)) \<and>
         (n = 25 \<and> q_limit q = 10 \<and> q_page q = 3 \<longrightarrow>
            (\<exists>ps pg. listPedidos q t = Inr (ps, pg) \<and> length ps = 5 \<and>
               pg_totalPages pg = Num 3 \<and> \<not> pg_hasNext pg \<and> pg_hasPrev pg))"
proof (intro conjI impI)
  note r = listPedidos_returns [OF disjI1 [OF assms(1)] assms(3)]
  show "\<exists>ps pg. listPedidos q t = Inr (ps, pg) \<and>
            ps = take (q_limit q) (drop ((q_page q - 1) * q_limit q)
                   (sort_key (\<lambda>p. - int (p_criadoEm p))
                      (filter (pedido_matches q) (pt_rows t)))) \<and>
            pg_page pg = q_page q \<and> pg_limit pg = q_limit q \<and>
            pg_total pg = n \<and>
            pg_totalPages pg = Num \<lceil>real n / real (q_limit q)\<rceil> \<and>
            pg_hasNext pg = (int (q_page q) < \<lceil>real n / real (q_limit q)\<rceil>) \<and>
            pg_hasPrev pg = (1 < q_page q)"
    by (simp add: r assms(4) js_ceil_div_pos [OF assms(2)])
next
  assume a: "n = 25 \<and> q_limit q = 10 \<and> q_page q = 1"
  have c: "\<lceil>(25::real) / 10\<rceil> = 3" by linarith
  show "\<exists>ps pg. listPedidos q t = Inr (ps, pg) \<and> length ps = 10 \<and>
               pg_totalPages pg = Num 3 \<and> pg_hasNext pg \<and> \<not> pg_hasPrev pg"
    using a assms(4) c
    by (simp add: listPedidos_returns [OF disjI1 [OF assms(1)] assms(3)] js_ceil_div_def)
next
  assume a: "n = 25 \<and> q_limit q = 10 \<and> q_page q = 3"
  have c: "\<lceil>(25::real) / 10\<rceil> = 3" by linarith
  show "\<exists>ps pg. listPedidos q t = Inr (ps, pg) \<and> length ps = 5 \<and>
               pg_totalPages pg = Num 3 \<and> \<not> pg_hasNext pg \<and> pg_hasPrev pg"
    using a assms(4) c
    by (simp add: listPedidos_returns [OF disjI1 [OF assms(1)] assms(3)] js_ceil_div_def)
qed

theorem listPedidos_pagination_witness:
  "(\<exists>ps pg. listPedidos (page_query 1) many_orders = Inr (ps, pg) \<and>
      length ps = 10 \<and> pg_page pg = 1 \<and> pg_limit pg = 10 \<and> pg_total pg = 25 \<and>
      pg_totalPages pg = Num 3 \<and> pg_hasNext pg \<and> \<not> pg_hasPrev pg) \<and>
   (\<exists>ps pg. listPedidos (page_query 3) many_orders = Inr (ps, pg) \<and>
      length ps = 5 \<and> pg_page pg = 3 \<and> pg_limit pg = 10 \<and> pg_total pg = 25 \<and>
      pg_totalPages pg = Num 3 \<and> \<not> pg_hasNext pg \<and> pg_hasPrev pg)"
proof -
  have n: "length (filter (pedido_matches (page_query k)) (pt_rows many_orders)) = 25" for k
    by (simp add: pedido_matches_def page_query_def truthy_def many_orders_def)
  have l: "0 < q_limit (page_query k)" for k by (simp add: page_query_def)
  have c: "\<not> truthy (q_cliente (page_query k))" for k by (simp add: page_query_def truthy_def)
  have p: "q_limit (page_query k) = 10" "q_page (page_query k) = k" for k
    by (simp_all add: page_query_def)
  have g1: "1 \<le> q_page (page_query 1)" and g3: "1 \<le> q_page (page_query 3)"
    by (simp_all add: page_query_def)
  from listPedidos_pagination [OF g1 l [of 1] c [of 1] n [of 1]] p
  have "\<exists>ps pg. listPedidos (page_query 1) many_orders = Inr (ps, pg) \<and>
      length ps = 10 \<and> pg_page pg = 1 \<and> pg_limit pg = 10 \<and> pg_total pg = 25 \<and>
      pg_totalPages pg = Num 3 \<and> pg_hasNext pg \<and> \<not> pg_hasPrev pg" by auto
  moreover
  from listPedidos_pagination [OF g3 l [of 3] c [of 3] n [of 3]] p
  have "\<exists>ps pg. listPedidos (page_query 3) many_orders = Inr (ps, pg) \<and>
      length ps = 5 \<and> pg_page pg = 3 \<and> pg_limit pg = 10 \<and> pg_total pg = 25 \<and>
      pg_totalPages pg = Num 3 \<and> \<not> pg_hasNext pg \<and> pg_hasPrev pg" by auto
  ultimately show ?thesis by simp
qed

section \<open>Reading one order: the access check\<close>

lemma idParamSchema_1: "idParamSchema (Some ''1'') = Some 1"
  by (simp add: idParamSchema_def is_digit_def digits_to_nat_def)

lemma after_create_rows: "after_create = \<lparr> pt_rows = [created_order], pt_seq = 1 \<rparr>"
  by (simp add: after_create_def ctrl_create_def caller_def createPedido_def marmita_def
        repo_create_def db_pedido_create_def empty_pedidos_def created_order_def Let_def)

text \<open>What the check of \<open>getById\<close> decides for an authenticated caller and an existing
  order: the order is returned exactly when the role is the string \<open>ADMIN\<close> or the
  order's own id equals the caller's id.\<close>

lemma ctrl_getById_access:
  assumes "idParamSchema v = Some i" and "db_pedido_findUnique i t = Some p"
    and "c_user c = Some u"
  shows "ctrl_getById c v t =
           (if jp_role u = ''ADMIN'' \<or> p_id p = jp_userId u
            then \<lparr> r_code = 200, r_body = SuccessData p \<rparr>
            else \<lparr> r_code = 403, r_body = JustError AcessoNegado \<rparr>)"
  using assms by (simp add: ctrl_getById_def getPedidoById_def repo_findById_def Let_def)

text \<open>
  C1, on the code. User 2 (role \<open>user\<close>) creates an order, which gets id 1. User 1 (role
  \<open>user\<close>), who has nothing to do with it, reads it with status 200; user 2, who created
  it, is refused with 403; and a caller whose token carries the role \<open>admin\<close>, as
  registration issues it, is refused with 403 as well.
\<close>

theorem getById_compares_order_id_with_caller_id:
  "ctrl_create (caller 2 ''user'') (Some (marmita 25)) 100 empty_pedidos
     = (\<lparr> r_code = 201, r_body = SuccessData created_order \<rparr>, after_create) \<and>
   ctrl_getById (caller 1 ''user'') (Some ''1'') after_create
     = \<lparr> r_code = 200, r_body = SuccessData created_order \<rparr> \<and>
   ctrl_getById (caller 2 ''user'') (Some ''1'') after_create
     = \<lparr> r_code = 403, r_body = JustError AcessoNegado \<rparr> \<and>
   ctrl_getById (caller 9 ''admin'') (Some ''1'') after_create
     = \<lparr> r_code = 403, r_body = JustError AcessoNegado \<rparr>"
proof -
  have f: "db_pedido_findUnique 1 after_create = Some created_order"
    by (simp add: after_create_rows db_pedido_findUnique_def created_order_def)
  have i: "p_id created_order = 1" by (simp add: created_order_def)
  have "ctrl_create (caller 2 ''user'') (Some (marmita 25)) 100 empty_pedidos
     = (\<lparr> r_code = 201, r_body = SuccessData created_order \<rparr>, after_create)"
    unfolding after_create_rows
    by (simp add: ctrl_create_def caller_def createPedido_def marmita_def
        repo_create_def db_pedido_create_def empty_pedidos_def created_order_def Let_def)
  then show ?thesis
    by (simp add: ctrl_getById_access [OF idParamSchema_1 f] caller_def i)
qed

section \<open>Lookups in the user table\<close>

lemma find_email_None: "e \<notin> u_email ` set xs \<Longrightarrow> find (\<lambda>u. u_email u = e) xs = None"
  by (induction xs) auto

lemma find_email_append:
  "e \<notin> u_email ` set xs \<Longrightarrow> u_email u = e \<Longrightarrow> find (\<lambda>v. u_email v = e) (xs @ [u]) = Some u"
  by (induction xs) auto

lemma find_in_set: "find P xs = Some x \<Longrightarrow> x \<in> set xs \<and> P x"
  by (induction xs) (auto split: if_splits)

lemma register_new_email:
  assumes "ru_email d \<notin> u_email ` set (ut_rows t)"
  shows "register ext now d t =
    (let u = \<lparr> u_id = Suc (ut_seq t), u_email = ru_email d,
                u_senha = hashPassword ext (ru_senha d), u_nome = ru_nome d,
                u_role = (if truthy (ru_role d) then the (ru_role d) else ''user''),
                u_ativo = True, u_criadoEm = now, u_atualizadoEm = now \<rparr>
     in (Inr (omit ''senha'' (usuario_obj u), generateToken ext (token_payload u)),
         t\<lparr> ut_rows := ut_rows t @ [u], ut_seq := Suc (ut_seq t) \<rparr>))"
  using assms
  by (simp add: register_def user_repo_create_def db_usuario_create_def
        db_usuario_findByEmail_def find_email_None Let_def)

lemma carla_is_new:
  "ru_email (registration ''carla@x.com'' r) \<notin> u_email ` set (ut_rows two_users)"
  by (simp add: registration_def two_users_def ana_def bob_def)

section \<open>Login\<close>

text \<open>
  C5. \<open>login\<close> fails with one and the same error, \<open>CredenciaisInvalidas\<close>, when no stored
  user has the email, when the account found is not active, and when the password does
  not compare equal to the stored hash. Otherwise it returns the view of the user, which
  is the object of the user's id, email, nome, role, ativo, criadoEm and atualizadoEm,
  each with the stored value, and the token generated from the payload of the user's id,
  email and role.
\<close>

theorem login_generic_failure:
  "(lu_email d \<notin> u_email ` set (ut_rows t) \<longrightarrow> login ext d t = Inl CredenciaisInvalidas) \<and>
   (\<forall>u. db_usuario_findByEmail (lu_email d) t = Some u \<longrightarrow>
      (\<not> u_ativo u \<longrightarrow> login ext d t = Inl CredenciaisInvalidas) \<and>
      (\<not> comparePassword ext (lu_senha d) (u_senha u) \<longrightarrow>
         login ext d t = Inl CredenciaisInvalidas) \<and>
      (u_ativo u \<and> comparePassword ext (lu_senha d) (u_senha u) \<longrightarrow>
         login ext d t
           = Inr ([(''id'', JNum (u_id u)), (''email'', JStr (u_email u)),
                   (''nome'', JStr (u_nome u)), (''role'', JStr (u_role u)),
                   (''ativo'', JBool (u_ativo u)), (''criadoEm'', JNum (u_criadoEm u)),
                   (''atualizadoEm'', JNum (u_atualizadoEm u))],
                  generateToken ext
                    \<lparr> jp_userId = u_id u, jp_email = u_email u, jp_role = u_role u \<rparr>)))"
  by (auto simp: login_def db_usuario_findByEmail_def find_email_None omit_def usuario_obj_def
        token_payload_def)

theorem login_generic_failure_witness:
  "login sample_ext (credentials ''zoe@x.com'' ''Secret123'') two_users = Inl CredenciaisInvalidas \<and>
   login sample_ext (credentials ''bob@x.com'' ''Passw0rd'') two_users = Inl CredenciaisInvalidas \<and>
   login sample_ext (credentials ''ana@x.com'' ''wrong'') two_users = Inl CredenciaisInvalidas \<and>
   login sample_ext (credentials ''ana@x.com'' ''Secret123'') two_users
     = Inr ([(''id'', JNum 1), (''email'', JStr ''ana@x.com''), (''nome'', JStr ''Ana''),
             (''role'', JStr ''user''), (''ativo'', JBool True), (''criadoEm'', JNum 10),
             (''atualizadoEm'', JNum 10)],
            ''token:ana@x.com:user'')"
proof -
  have z: "lu_email (credentials ''zoe@x.com'' ''Secret123'') \<notin> u_email ` set (ut_rows two_users)"
    by (simp add: credentials_def two_users_def ana_def bob_def)
  have b: "db_usuario_findByEmail (lu_email (credentials ''bob@x.com'' s)) two_users = Some bob" for s
    by (simp add: db_usuario_findByEmail_def credentials_def two_users_def ana_def bob_def)
  have a: "db_usuario_findByEmail (lu_email (credentials ''ana@x.com'' s)) two_users = Some ana" for s
    by (simp add: db_usuario_findByEmail_def credentials_def two_users_def ana_def bob_def)
  have bi: "\<not> u_ativo bob" by (simp add: bob_def)
  have aw: "\<not> comparePassword sample_ext (lu_senha (credentials ''ana@x.com'' ''wrong'')) (u_senha ana)"
    by (simp add: sample_ext_def credentials_def ana_def)
  have ar: "u_ativo ana \<and>
      comparePassword sample_ext (lu_senha (credentials ''ana@x.com'' ''Secret123'')) (u_senha ana)"
    by (simp add: sample_ext_def credentials_def ana_def)
  have tk: "generateToken sample_ext
              \<lparr> jp_userId = u_id ana, jp_email = u_email ana, jp_role = u_role ana \<rparr>
            = ''token:ana@x.com:user''"
    by (simp add: sample_ext_def ana_def)
  have av: "u_id ana = 1" "u_email ana = ''ana@x.com''" "u_nome ana = ''Ana''"
    "u_role ana = ''user''" "u_criadoEm ana = 10" "u_atualizadoEm ana = 10"
    by (simp_all add: ana_def)
  from login_generic_failure [of "credentials ''zoe@x.com'' ''Secret123''" two_users sample_ext] z
  have "login sample_ext (credentials ''zoe@x.com'' ''Secret123'') two_users = Inl CredenciaisInvalidas"
    by simp
  moreover
  from login_generic_failure [of "credentials ''bob@x.com'' ''Passw0rd''" two_users sample_ext] b bi
  have "login sample_ext (credentials ''bob@x.com'' ''Passw0rd'') two_users = Inl CredenciaisInvalidas"
    by simp
  moreover
  from login_generic_failure [of "credentials ''ana@x.com'' ''wrong''" two_users sample_ext] a aw
  have "login sample_ext (credentials ''ana@x.com'' ''wrong'') two_users = Inl CredenciaisInvalidas"
    by simp
  moreover
  from login_generic_failure [of "credentials ''ana@x.com'' ''Secret123''" two_users sample_ext]
    a ar tk av
  have "login sample_ext (credentials ''ana@x.com'' ''Secret123'') two_users
     = Inr ([(''id'', JNum 1), (''email'', JStr ''ana@x.com''), (''nome'', JStr ''Ana''),
             (''role'', JStr ''user''), (''ativo'', JBool True), (''criadoEm'', JNum 10),
             (''atualizadoEm'', JNum 10)],
            ''token:ana@x.com:user'')"
    by simp
  ultimately show ?thesis by simp
qed

section \<open>Registration\<close>

text \<open>
  C6. For every registration input whose email no stored user has, \<open>register\<close> succeeds
  and appends one user to the table: active, found under the input's email, holding the
  hash of the password, and with the role of the input when it has one and \<open>user\<close>
  otherwise; with no role in the input, and with what the schema makes of a request
  without a role, the role is \<open>user\<close>.
\<close>

theorem register_persists_active_user:
  assumes "ru_email d \<notin> u_email ` set (ut_rows t)"
  shows "\<exists>v tok u t'. register ext now d t = (Inr (v, tok), t') \<and>
           ut_rows t' = ut_rows t @ [u] \<and>
           db_usuario_findByEmail (ru_email d) t' = Some u \<and>
           u_ativo u \<and> u_email u = ru_email d \<and> u_nome u = ru_nome d \<and>
           u_senha u = hashPassword ext (ru_senha d) \<and>
           u_role u = (if truthy (ru_role d) then the (ru_role d) else ''user'') \<and>
           (ru_role d = None \<or> ru_role d = registerUserSchema_role None \<longrightarrow> u_role u = ''user'')"
  using assms
  by (auto simp: register_new_email Let_def db_usuario_findByEmail_def find_email_append
        truthy_def registerUserSchema_role_def)

theorem register_persists_active_user_witness:
  "\<exists>v tok u t'. register sample_ext 30 (registration ''carla@x.com'' None) two_users
                   = (Inr (v, tok), t') \<and>
      ut_rows t' = [ana, bob, u] \<and> db_usuario_findByEmail ''carla@x.com'' t' = Some u \<and>
      u_ativo u \<and> u_email u = ''carla@x.com'' \<and> u_senha u = ''hash:Secret123'' \<and>
      u_role u = ''user''"
proof -
  have e: "ru_email (registration ''carla@x.com'' None) = ''carla@x.com''"
    by (simp add: registration_def)
  have r: "ut_rows two_users @ [u] = [ana, bob, u]" for u
    by (simp add: two_users_def)
  have h: "hashPassword sample_ext (ru_senha (registration ''carla@x.com'' None)) = ''hash:Secret123''"
    by (simp add: sample_ext_def registration_def)
  have n: "ru_role (registration ''carla@x.com'' None) = None"
    by (simp add: registration_def)
  from register_persists_active_user [OF carla_is_new [of None], of sample_ext 30]
  obtain v tok u t' where
    "register sample_ext 30 (registration ''carla@x.com'' None) two_users = (Inr (v, tok), t')"
    "ut_rows t' = ut_rows two_users @ [u]"
    "db_usuario_findByEmail (ru_email (registration ''carla@x.com'' None)) t' = Some u"
    "u_ativo u" "u_email u = ru_email (registration ''carla@x.com'' None)"
    "u_senha u = hashPassword sample_ext (ru_senha (registration ''carla@x.com'' None))"
    "ru_role (registration ''carla@x.com'' None) = None \<or>
     ru_role (registration ''carla@x.com'' None) = registerUserSchema_role None
       \<longrightarrow> u_role u = ''user''"
    by blast
  then show ?thesis unfolding e r h using n by blast
qed

section \<open>The password hash stays inside\<close>

text \<open>The stored row has the key \<open>senha\<close>; a view built by \<open>omit\<close> or by the listing's
  \<open>select\<close> has not.\<close>

lemma senha_in_row: "''senha'' \<in> set (keys (usuario_obj u))"
  by (simp add: keys_def usuario_obj_def)

lemma senha_omitted: "''senha'' \<notin> set (keys (omit ''senha'' ob))"
  by (auto simp: keys_def omit_def)

lemma senha_not_selected: "''senha'' \<notin> set (keys (select_fields listing_fields ob))"
  by (auto simp: keys_def select_fields_def listing_fields_def)

lemma register_view:
  "register ext now d t = (Inr (v, tok), t') \<Longrightarrow> \<exists>u. v = omit ''senha'' (usuario_obj u)"
  by (auto simp: register_def split: option.splits)

lemma login_view:
  "login ext d t = Inr (v, tok) \<Longrightarrow> \<exists>u. v = omit ''senha'' (usuario_obj u)"
  by (auto simp: login_def split: option.splits if_splits)

lemma getUserById_view:
  "getUserById i t = Inr v \<Longrightarrow> \<exists>u. v = omit ''senha'' (usuario_obj u)"
  by (auto simp: getUserById_def split: option.splits if_splits)

lemma updateUser_view:
  "updateUser ext now i d t = (Inr v, t') \<Longrightarrow> \<exists>u. v = omit ''senha'' (usuario_obj u)"
  by (auto simp: updateUser_def Let_def split: sum.splits option.splits if_splits prod.splits)

lemma listUsers_views:
  "listUsers bad_page page lmt t = Inr (vs, pg) \<Longrightarrow> v \<in> set vs
   \<Longrightarrow> \<exists>u. v = select_fields listing_fields (usuario_obj u)"
  by (auto simp: listUsers_def user_repo_findMany_def db_usuario_findMany_def Let_def
        split: option.splits if_splits)

text \<open>
  C7. Whatever the inputs, the user view returned by \<open>register\<close>, \<open>login\<close>,
  \<open>getUserById\<close> and \<open>updateUser\<close>, and every entry of the list returned by
  \<open>listUsers\<close>, has no key \<open>senha\<close>.
\<close>

theorem no_password_hash_in_user_views:
  "(\<forall>v tok t'. register ext now rd t = (Inr (v, tok), t') \<longrightarrow> ''senha'' \<notin> set (keys v)) \<and>
   (\<forall>v tok. login ext ld t = Inr (v, tok) \<longrightarrow> ''senha'' \<notin> set (keys v)) \<and>
   (\<forall>v. getUserById i t = Inr v \<longrightarrow> ''senha'' \<notin> set (keys v)) \<and>
   (\<forall>vs pg. listUsers bad_page page lmt t = Inr (vs, pg) \<longrightarrow>
      (\<forall>v \<in> set vs. ''senha'' \<notin> set (keys v))) \<and>
   (\<forall>v t'. updateUser ext now i ud t = (Inr v, t') \<longrightarrow> ''senha'' \<notin> set (keys v))"
proof (intro conjI allI impI ballI)
  fix v tok t' assume "register ext now rd t = (Inr (v, tok), t')"
  then show "''senha'' \<notin> set (keys v)" using register_view senha_omitted by blast
next
  fix v tok assume "login ext ld t = Inr (v, tok)"
  then show "''senha'' \<notin> set (keys v)" using login_view senha_omitted by blast
next
  fix v assume "getUserById i t = Inr v"
  then show "''senha'' \<notin> set (keys v)" using getUserById_view senha_omitted by blast
next
  fix vs pg v assume "listUsers bad_page page lmt t = Inr (vs, pg)" and "v \<in> set vs"
  then show "''senha'' \<notin> set (keys v)" using listUsers_views senha_not_selected by blast
next
  fix v t' assume "updateUser ext now i ud t = (Inr v, t')"
  then show "''senha'' \<notin> set (keys v)" using updateUser_view senha_omitted by blast
qed

theorem no_password_hash_in_user_views_witness:
  "(\<exists>v tok t'. register sample_ext 30 (registration ''carla@x.com'' None) two_users
                  = (Inr (v, tok), t') \<and> ''senha'' \<notin> set (keys v)) \<and>
   (\<exists>v tok. login sample_ext (credentials ''ana@x.com'' ''Secret123'') two_users = Inr (v, tok) \<and>
             ''senha'' \<notin> set (keys v)) \<and>
   (\<exists>v. getUserById 1 two_users = Inr v \<and> ''senha'' \<notin> set (keys v)) \<and>
   (\<exists>vs pg. listUsers users_store_throws 1 10 two_users = Inr (vs, pg) \<and> length vs = 1 \<and>
             list_all (\<lambda>v. ''senha'' \<notin> set (keys v)) vs) \<and>
   (\<exists>v t'. updateUser sample_ext 40 1 (rename ''Ana Maria'') two_users = (Inr v, t') \<and>
            ''senha'' \<notin> set (keys v))"
proof -
  note th = no_password_hash_in_user_views
      [where ext = sample_ext and now = 30 and rd = "registration ''carla@x.com'' None"
         and t = two_users and ld = "credentials ''ana@x.com'' ''Secret123''" and i = 1
         and bad_page = users_store_throws and page = 1 and lmt = 10]
  note th2 = no_password_hash_in_user_views
      [where ext = sample_ext and now = 40 and t = two_users and i = 1
         and ud = "rename ''Ana Maria''"]
  have r: "\<exists>v tok t'. register sample_ext 30 (registration ''carla@x.com'' None) two_users
                  = (Inr (v, tok), t')"
    by (simp add: register_new_email [OF carla_is_new] Let_def)
  have l: "\<exists>v tok. login sample_ext (credentials ''ana@x.com'' ''Secret123'') two_users = Inr (v, tok)"
    by (simp add: login_def db_usuario_findByEmail_def credentials_def two_users_def ana_def
          bob_def sample_ext_def)
  have g: "\<exists>v. getUserById 1 two_users = Inr v"
    by (simp add: getUserById_def db_usuario_findById_def two_users_def ana_def bob_def)
  have ls: "\<exists>vs pg. listUsers users_store_throws 1 10 two_users = Inr (vs, pg) \<and> length vs = 1"
    by (simp add: listUsers_def user_repo_findMany_def db_usuario_findMany_def Let_def
          two_users_def ana_def bob_def)
  have u: "\<exists>v t'. updateUser sample_ext 40 1 (rename ''Ana Maria'') two_users = (Inr v, t')"
    by (simp add: updateUser_def getUserById_def db_usuario_findById_def user_repo_update_def
          db_usuario_update_def apply_usuario_patch_def rename_def truthy_def two_users_def
          ana_def bob_def Let_def)
  from r th have 1: "\<exists>v tok t'. register sample_ext 30 (registration ''carla@x.com'' None) two_users
                  = (Inr (v, tok), t') \<and> ''senha'' \<notin> set (keys v)" by blast
  from l th have 2: "\<exists>v tok. login sample_ext (credentials ''ana@x.com'' ''Secret123'') two_users
                  = Inr (v, tok) \<and> ''senha'' \<notin> set (keys v)" by blast
  from g th have 3: "\<exists>v. getUserById 1 two_users = Inr v \<and> ''senha'' \<notin> set (keys v)" by blast
  from ls th have 4: "\<exists>vs pg. listUsers users_store_throws 1 10 two_users = Inr (vs, pg) \<and>
             length vs = 1 \<and> list_all (\<lambda>v. ''senha'' \<notin> set (keys v)) vs"
    unfolding list_all_iff by blast
  from u th2 have 5: "\<exists>v t'. updateUser sample_ext 40 1 (rename ''Ana Maria'') two_users = (Inr v, t') \<and>
            ''senha'' \<notin> set (keys v)" by blast
  from 1 2 3 4 5 show ?thesis by blast
qed

section \<open>Upload: rejection comes before any write\<close>

text \<open>
  C9. For every file and every options value, when the file's size exceeds
  \<open>maxSize\<close>, or its type is not one of \<open>allowedTypes\<close>, or its size is zero,
  \<open>uploadFile\<close> fails and the state is the one it started from: nothing was put into
  the bucket and no row was added to the metadata table.
\<close>

theorem uploadFile_rejects_before_writing:
  assumes "js_gt (Num (int (f_size file))) (maxSize options) \<or>
           f_type file \<notin> set (allowedTypes options) \<or> f_size file = 0"
  shows "\<exists>e. uploadFile env baseUrl file userId options st = (Inl (ErroNoUpload e), st)"
  using assms by (auto simp: uploadFile_def validateFile_def)

theorem uploadFile_rejects_before_writing_witness:
  "(\<exists>e. uploadFile sample_env ''https://api'' (sample_file 20 ''image/png'') ''7'' sample_options
           one_file = (Inl (ErroNoUpload e), one_file)) \<and>
   (\<exists>e. uploadFile sample_env ''https://api'' (sample_file 5 ''text/html'') ''7'' sample_options
           one_file = (Inl (ErroNoUpload e), one_file)) \<and>
   (\<exists>e. uploadFile sample_env ''https://api'' (sample_file 0 ''image/png'') ''7'' sample_options
           one_file = (Inl (ErroNoUpload e), one_file))"
proof -
  have a: "js_gt (Num (int (f_size (sample_file 20 ''image/png'')))) (maxSize sample_options)"
    by (simp add: js_gt_def sample_file_def sample_options_def)
  have b: "f_type (sample_file 5 ''text/html'') \<notin> set (allowedTypes sample_options)"
    by (simp add: sample_file_def sample_options_def)
  have c: "f_size (sample_file 0 ''image/png'') = 0"
    by (simp add: sample_file_def)
  show ?thesis
    using uploadFile_rejects_before_writing [of "sample_file 20 ''image/png''" sample_options
            sample_env "''https://api''" "''7''" one_file] a
          uploadFile_rejects_before_writing [of "sample_file 5 ''text/html''" sample_options
            sample_env "''https://api''" "''7''" one_file] b
          uploadFile_rejects_before_writing [of "sample_file 0 ''image/png''" sample_options
            sample_env "''https://api''" "''7''" one_file] c
    by simp
qed

text \<open>An accepted file, for comparison, adds one object to the bucket and one row to
  the table.\<close>

lemma uploadFile_accepted_writes:
  assumes "\<not> js_gt (Num (int (f_size file))) (maxSize options)"
    and "f_type file \<in> set (allowedTypes options)" and "f_size file \<noteq> 0"
  shows "\<exists>v st'. uploadFile env baseUrl file userId options st = (Inr v, st') \<and>
           length (fs_bucket st') = Suc (length (fs_bucket st)) \<and>
           length (fs_arquivos st') = Suc (length (fs_arquivos st))"
  using assms
  by (simp add: uploadFile_def validateFile_def r2_put_def db_arquivo_create_def Let_def)

section \<open>The admin gate and the roles this system issues\<close>

text \<open>
  C10. A payload whose role is \<open>user\<close> or \<open>admin\<close> is refused by
  \<open>roleMiddleware ['ADMIN']\<close> with the 403 exception. Consequently the token that
  \<open>register\<close> returns for a role the registration schema lets through, and the token
  that \<open>login\<close> returns over a table whose roles all came through the schemas, carry a
  payload that the admin gate of the routes refuses.
\<close>

theorem admin_gate_rejects_issued_roles:
  "(jp_role pl = ''user'' \<or> jp_role pl = ''admin'' \<longrightarrow>
      roleMiddleware [''ADMIN''] (Some pl)
        = Inl (HTTPException 403 AcessoNegadoPermissoesInsuficientes)) \<and>
   (\<forall>r v tok t'. registerUserSchema_role raw = Some r \<and>
        register ext now (d\<lparr> ru_role := Some r \<rparr>) t = (Inr (v, tok), t') \<longrightarrow>
        (\<exists>u. u \<in> set (ut_rows t') \<and> tok = generateToken ext (token_payload u) \<and>
             admin_gate (Some (token_payload u))
               = Inl (HTTPException 403 AcessoNegadoPermissoesInsuficientes))) \<and>
   (\<forall>v tok. roles_issued t \<and> login ext ld t = Inr (v, tok) \<longrightarrow>
        (\<exists>u. u \<in> set (ut_rows t) \<and> tok = generateToken ext (token_payload u) \<and>
             admin_gate (Some (token_payload u))
               = Inl (HTTPException 403 AcessoNegadoPermissoesInsuficientes)))"
proof (intro conjI allI impI)
  assume "jp_role pl = ''user'' \<or> jp_role pl = ''admin''"
  then show "roleMiddleware [''ADMIN''] (Some pl)
        = Inl (HTTPException 403 AcessoNegadoPermissoesInsuficientes)"
    by (auto simp: roleMiddleware_def)
next
  fix r v tok t'
  assume a: "registerUserSchema_role raw = Some r \<and>
        register ext now (d\<lparr> ru_role := Some r \<rparr>) t = (Inr (v, tok), t')"
  then have r: "r = ''user'' \<or> r = ''admin''"
    by (auto simp: registerUserSchema_role_def split: option.splits if_splits)
  from a show "\<exists>u. u \<in> set (ut_rows t') \<and> tok = generateToken ext (token_payload u) \<and>
             admin_gate (Some (token_payload u))
               = Inl (HTTPException 403 AcessoNegadoPermissoesInsuficientes)"
    using r
    by (auto simp: register_def user_repo_create_def db_usuario_create_def Let_def truthy_def
          admin_gate_def roleMiddleware_def token_payload_def
          split: option.splits if_splits)
next
  fix v tok
  assume a: "roles_issued t \<and> login ext ld t = Inr (v, tok)"
  then obtain u where u: "db_usuario_findByEmail (lu_email ld) t = Some u"
      and tok: "tok = generateToken ext (token_payload u)"
    by (auto simp: login_def split: option.splits if_splits)
  from u have m: "u \<in> set (ut_rows t)"
    using find_in_set by (fastforce simp: db_usuario_findByEmail_def)
  with a have "u_role u = ''user'' \<or> u_role u = ''admin''"
    by (auto simp: roles_issued_def list_all_iff)
  then have "admin_gate (Some (token_payload u))
               = Inl (HTTPException 403 AcessoNegadoPermissoesInsuficientes)"
    by (auto simp: admin_gate_def roleMiddleware_def token_payload_def)
  with m tok show "\<exists>u. u \<in> set (ut_rows t) \<and> tok = generateToken ext (token_payload u) \<and>
             admin_gate (Some (token_payload u))
               = Inl (HTTPException 403 AcessoNegadoPermissoesInsuficientes)"
    by blast
qed

theorem admin_gate_rejects_issued_roles_witness:
  "roleMiddleware [''ADMIN''] (Some \<lparr> jp_userId = 2, jp_email = ''bob@x.com'', jp_role = ''admin'' \<rparr>)
     = Inl (HTTPException 403 AcessoNegadoPermissoesInsuficientes) \<and>
   (\<exists>v tok t' u. register sample_ext 30 (registration ''carla@x.com'' (Some ''admin'')) two_users
                    = (Inr (v, tok), t') \<and>
       u \<in> set (ut_rows t') \<and> tok = generateToken sample_ext (token_payload u) \<and>
       admin_gate (Some (token_payload u))
         = Inl (HTTPException 403 AcessoNegadoPermissoesInsuficientes)) \<and>
   (\<exists>v tok u. login sample_ext (credentials ''ana@x.com'' ''Secret123'') two_users = Inr (v, tok) \<and>
       u \<in> set (ut_rows two_users) \<and> tok = generateToken sample_ext (token_payload u) \<and>
       admin_gate (Some (token_payload u))
         = Inl (HTTPException 403 AcessoNegadoPermissoesInsuficientes))"
proof -
  note th = admin_gate_rejects_issued_roles
      [where pl = "\<lparr> jp_userId = 2, jp_email = ''bob@x.com'', jp_role = ''admin'' \<rparr>"
         and raw = "Some ''admin''" and ext = sample_ext and now = 30
         and d = "registration ''carla@x.com'' None" and t = two_users
         and ld = "credentials ''ana@x.com'' ''Secret123''"]
  have s: "registerUserSchema_role (Some ''admin'') = Some ''admin''"
    by (simp add: registerUserSchema_role_def)
  have d: "(registration ''carla@x.com'' None)\<lparr> ru_role := Some ''admin'' \<rparr>
             = registration ''carla@x.com'' (Some ''admin'')"
    by (simp add: registration_def)
  have r: "\<exists>v tok t'. register sample_ext 30 (registration ''carla@x.com'' (Some ''admin'')) two_users
                  = (Inr (v, tok), t')"
    by (simp add: register_new_email [OF carla_is_new] Let_def)
  have i: "roles_issued two_users"
    by (simp add: roles_issued_def two_users_def ana_def bob_def)
  have l: "\<exists>v tok. login sample_ext (credentials ''ana@x.com'' ''Secret123'') two_users = Inr (v, tok)"
    by (simp add: login_def db_usuario_findByEmail_def credentials_def two_users_def ana_def
          bob_def sample_ext_def)
  from th have 1: "roleMiddleware [''ADMIN'']
        (Some \<lparr> jp_userId = 2, jp_email = ''bob@x.com'', jp_role = ''admin'' \<rparr>)
     = Inl (HTTPException 403 AcessoNegadoPermissoesInsuficientes)" by simp
  from r obtain v tok t' where reg:
    "register sample_ext 30 (registration ''carla@x.com'' (Some ''admin'')) two_users
       = (Inr (v, tok), t')" by blast
  have "registerUserSchema_role (Some ''admin'') = Some ''admin'' \<and>
        register sample_ext 30 ((registration ''carla@x.com'' None)\<lparr> ru_role := Some ''admin'' \<rparr>)
          two_users = (Inr (v, tok), t')"
    using s d reg by simp
  with th obtain u where
    "u \<in> set (ut_rows t')" "tok = generateToken sample_ext (token_payload u)"
    "admin_gate (Some (token_payload u))
       = Inl (HTTPException 403 AcessoNegadoPermissoesInsuficientes)"
    by blast
  with reg have 2: "\<exists>v tok t' u.
       register sample_ext 30 (registration ''carla@x.com'' (Some ''admin'')) two_users
                    = (Inr (v, tok), t') \<and>
       u \<in> set (ut_rows t') \<and> tok = generateToken sample_ext (token_payload u) \<and>
       admin_gate (Some (token_payload u))
         = Inl (HTTPException 403 AcessoNegadoPermissoesInsuficientes)"
    by blast
  from l obtain v2 tok2 where lg:
    "login sample_ext (credentials ''ana@x.com'' ''Secret123'') two_users = Inr (v2, tok2)"
    by blast
  with i have "roles_issued two_users \<and>
      login sample_ext (credentials ''ana@x.com'' ''Secret123'') two_users = Inr (v2, tok2)"
    by simp
  with th obtain u2 where
    "u2 \<in> set (ut_rows two_users)" "tok2 = generateToken sample_ext (token_payload u2)"
    "admin_gate (Some (token_payload u2))
       = Inl (HTTPException 403 AcessoNegadoPermissoesInsuficientes)"
    by blast
  with lg have 3: "\<exists>v tok u.
       login sample_ext (credentials ''ana@x.com'' ''Secret123'') two_users = Inr (v, tok) \<and>
       u \<in> set (ut_rows two_users) \<and> tok = generateToken sample_ext (token_payload u) \<and>
       admin_gate (Some (token_payload u))
         = Inl (HTTPException 403 AcessoNegadoPermissoesInsuficientes)"
    by blast
  from 1 2 3 show ?thesis by blast
qed

text \<open>Registration and update, fed with roles that passed their schemas, keep every
  stored role among the two values.\<close>

lemma roles_issued_register:
  assumes "roles_issued t" and "registerUserSchema_role raw = Some r"
  shows "roles_issued (snd (register ext now (d\<lparr> ru_role := Some r \<rparr>) t))"
  using assms
  by (auto simp: register_def user_repo_create_def db_usuario_create_def Let_def truthy_def
        roles_issued_def registerUserSchema_role_def split: option.splits if_splits)

lemma roles_issued_updateUser:
  assumes "roles_issued t" and "updateUserSchema_role raw = Some r"
  shows "roles_issued (snd (updateUser ext now i (d\<lparr> uu_role := r \<rparr>) t))"
  using assms
  by (auto simp: updateUser_def user_repo_update_def db_usuario_update_def Let_def
        roles_issued_def updateUserSchema_role_def apply_usuario_patch_def list_all_iff
        split: option.splits if_splits sum.splits)

end
